theory Spec2Isabelle
  imports Complex_Main "HOL-Library.Monad_Syntax"
begin

section \<open>Python and NumPy primitives\<close>

text \<open>
  The simulator computes with floating-point numbers. The model computes with the real
  numbers: every arithmetic operation is the exact one, so the theorems below are about
  the recurrence the code implements, not about the rounding of its machine arithmetic.

  A failing operation is the value \<open>None\<close>: a division by zero (Python raises
  ZeroDivisionError, NumPy gives inf or nan, neither of which is a real number), a missing
  dictionary key (KeyError), an array index out of range (IndexError), and a zero step
  handed to \<open>np.arange\<close> (ValueError).
\<close>

definition py_div :: "real \<Rightarrow> real \<Rightarrow> real option" where
  "py_div a b = (if b = 0 then None else Some (a / b))"

text \<open>\<open>xs[i]\<close> and \<open>xs[i] = v\<close> on a NumPy array, for an index \<open>i \<ge> 0\<close>.\<close>

definition np_get :: "real list \<Rightarrow> nat \<Rightarrow> real option" where
  "np_get xs i = (if i < length xs then Some (xs ! i) else None)"

definition np_set :: "real list \<Rightarrow> nat \<Rightarrow> real \<Rightarrow> real list option" where
  "np_set xs i v = (if i < length xs then Some (xs[i := v]) else None)"

text \<open>
  \<open>np.arange(start, stop, step)\<close>: \<open>\<lceil>(stop - start) / step\<rceil>\<close> values
  \<open>start + i * step\<close>, none when that number is not positive.

  The numbers of this theory are exact reals, the program's are doubles. The two agree on
  the length of the array only where the sum \<open>duration + time_step\<close> and the quotient by
  \<open>time_step\<close> are computed without rounding: with \<open>duration = 0.2\<close> and
  \<open>time_step = 0.1\<close> the double sum is \<open>0.30000000000000004\<close>, the quotient is above 3 and
  \<open>np.arange\<close> returns four values, where \<open>arange\<close> below has three. Whole numbers below
  \<open>2 ^ 53\<close> are doubles, and doubles add, multiply and divide them exactly as long as the
  result is such a number; the statement about the number of rows is therefore made for
  whole-number configurations.
\<close>

definition arange :: "real \<Rightarrow> real \<Rightarrow> real \<Rightarrow> real list option" where
  "arange start stop step =
     (if step = 0 then None
      else Some (map (\<lambda>i. start + real i * step) [0..<nat \<lceil>(stop - start) / step\<rceil>]))"

text \<open>
  \<open>np.round(x, decimals)\<close> scales by \<open>10 ^ decimals\<close>, rounds to the nearest integer
  with ties going to the even one (\<open>rint\<close>), and scales back.
\<close>

definition rint :: "real \<Rightarrow> int" where
  "rint x =
     (let f = \<lfloor>x\<rfloor> in
      if x - of_int f < 1 / 2 then f
      else if 1 / 2 < x - of_int f then f + 1
      else if even f then f else f + 1)"

definition np_round :: "real \<Rightarrow> nat \<Rightarrow> real" where
  "np_round x decimals = of_int (rint (x * 10 ^ decimals)) / 10 ^ decimals"

section \<open>The simulator object\<close>

record simulator =
  duration :: real
  time_step :: real
  time_points :: "real list"
  max_growth_rate :: real
  substrate_affinity :: real
  yield_coefficient :: real
  maintenance_coefficient :: real
  death_rate :: real
  antibody_productivity :: real
  inhibition_constant :: real
  optimal :: "string \<Rightarrow> real option"
  sigma :: "string \<Rightarrow> real option"

text \<open>\<open>CHOFermentationSimulator.__init__(duration, time_step)\<close>.\<close>

definition init :: "real \<Rightarrow> real \<Rightarrow> simulator option" where
  "init duration' time_step' = do {
     tp \<leftarrow> arange 0 (duration' + time_step') time_step';
     Some \<lparr> duration = duration',
            time_step = time_step',
            time_points = tp,
            max_growth_rate = 0.035,
            substrate_affinity = 2.0,
            yield_coefficient = 0.4,
            maintenance_coefficient = 0.02,
            death_rate = 0.005,
            antibody_productivity = 0.8,
            inhibition_constant = 50.0,
            optimal = [''temp'' \<mapsto> 37.0, ''ph'' \<mapsto> 7.2, ''oxygen'' \<mapsto> 50.0,
                       ''glucose'' \<mapsto> 20],
            sigma = [''temp'' \<mapsto> 2.0, ''ph'' \<mapsto> 0.4, ''oxygen'' \<mapsto> 20.0,
                     ''glucose'' \<mapsto> 40.0] \<rparr>
   }"

subsection \<open>Environmental stress\<close>

definition stress_gaussian :: "real \<Rightarrow> real \<Rightarrow> real option" where
  "stress_gaussian deviation sg = do {
     q \<leftarrow> py_div deviation sg;
     Some (exp (- 0.5 * q ^ 2))
   }"

text \<open>
  The dictionary \<open>deviations\<close> is an association list: the two list comprehensions
  walk its items in insertion order.
\<close>

definition evaluate_environment ::
  "simulator \<Rightarrow> real \<Rightarrow> real \<Rightarrow> real \<Rightarrow> real \<Rightarrow> (real \<times> real) option" where
  "evaluate_environment self temperature ph oxygen_saturation glc = do {
     o_temp \<leftarrow> optimal self ''temp'';
     o_ph \<leftarrow> optimal self ''ph'';
     o_oxygen \<leftarrow> optimal self ''oxygen'';
     o_glucose \<leftarrow> optimal self ''glucose'';
     let deviations = [(''temp'', temperature - o_temp),
                       (''ph'', ph - o_ph),
                       (''oxygen'', oxygen_saturation - o_oxygen),
                       (''glucose'', glc - o_glucose)];
     activity_factors \<leftarrow> those (map (\<lambda>(key, dev). do {
         sg \<leftarrow> sigma self key;
         stress_gaussian dev sg }) deviations);
     let activity_effect = prod_list activity_factors;
     stress_factors \<leftarrow> those (map (\<lambda>(key, dev). do {
         sg \<leftarrow> sigma self key;
         g \<leftarrow> stress_gaussian dev sg;
         py_div 1.0 g }) deviations);
     let combined_stress = prod_list stress_factors;
     Some (activity_effect, death_rate self * combined_stress)
   }"

subsection \<open>Substrate kinetics\<close>

text \<open>The optional argument \<open>k_i=None\<close> is an \<open>option\<close>.\<close>

definition monod_kinetics :: "real \<Rightarrow> real \<Rightarrow> real option \<Rightarrow> real option" where
  "monod_kinetics substrate k_s k_i =
     (if substrate \<le> 0 then Some 0
      else case k_i of
        None \<Rightarrow> py_div substrate (k_s + substrate)
      | Some ki \<Rightarrow> do {
          inh \<leftarrow> py_div (substrate ^ 2) ki;
          py_div substrate (k_s + substrate + inh)
        })"

section \<open>The integration loop\<close>

text \<open>The dictionary \<open>data\<close> of six arrays, one per quantity, each of length \<open>n\<close>.\<close>

record data =
  glucose :: "real list"
  vcd :: "real list"
  tcd :: "real list"
  dead_cells :: "real list"
  viability :: "real list"
  antibody_titer :: "real list"

text \<open>
  One pass of the body of \<open>for i in range(1, n)\<close>: it reads row \<open>i - 1\<close> and writes
  row \<open>i\<close>. The loop gives it \<open>1 \<le> i\<close> only.
\<close>

definition euler_body ::
  "simulator \<Rightarrow> real \<Rightarrow> real \<Rightarrow> real \<Rightarrow> nat \<Rightarrow> data \<Rightarrow> data option" where
  "euler_body self temperature ph_constant oxygen_saturation i d0 = do {
     let dt = time_step self;
     prev_glucose \<leftarrow> np_get (glucose d0) (i - 1);
     prev_vcd \<leftarrow> np_get (vcd d0) (i - 1);
     (activity_effect, death_rate') \<leftarrow>
        evaluate_environment self temperature ph_constant oxygen_saturation prev_glucose;
     substrate_factor \<leftarrow>
        monod_kinetics prev_glucose (substrate_affinity self) (Some (inhibition_constant self));
     let growth_rate = (if prev_vcd > 0
                        then max_growth_rate self * substrate_factor * activity_effect else 0);
     let vcd_growth = growth_rate * prev_vcd * dt;
     let vcd_death = death_rate' * prev_vcd * dt;
     let vcd_current = max 0 (prev_vcd + vcd_growth - vcd_death);
     vcd' \<leftarrow> np_set (vcd d0) i vcd_current;
     prev_dead \<leftarrow> np_get (dead_cells d0) (i - 1);
     dead' \<leftarrow> np_set (dead_cells d0) i (prev_dead + vcd_death);
     dead_i \<leftarrow> np_get dead' i;
     tcd' \<leftarrow> np_set (tcd d0) i (vcd_current + dead_i);
     tcd_i \<leftarrow> np_get tcd' i;
     viability' \<leftarrow> np_set (viability d0) i
        (if tcd_i > 0 then vcd_current / tcd_i * 100 else 0);
     growth_share \<leftarrow> py_div vcd_growth (yield_coefficient self);
     let glucose_consumption = growth_share + maintenance_coefficient self * prev_vcd * dt;
     glucose' \<leftarrow> np_set (glucose d0) i (max 0 (prev_glucose - glucose_consumption));
     prev_titer \<leftarrow> np_get (antibody_titer d0) (i - 1);
     titer' \<leftarrow>
       (if vcd_current > 0
        then np_set (antibody_titer d0) i
               (prev_titer + antibody_productivity self * vcd_current * dt * activity_effect)
        else np_set (antibody_titer d0) i prev_titer);
     Some \<lparr> glucose = glucose', vcd = vcd', tcd = tcd', dead_cells = dead',
            viability = viability', antibody_titer = titer' \<rparr>
   }"

fun euler_loop ::
  "simulator \<Rightarrow> real \<Rightarrow> real \<Rightarrow> real \<Rightarrow> nat list \<Rightarrow> data \<Rightarrow> data option" where
  "euler_loop self temperature ph_constant oxygen_saturation [] d = Some d"
| "euler_loop self temperature ph_constant oxygen_saturation (i # is) d =
     (case euler_body self temperature ph_constant oxygen_saturation i d of
        None \<Rightarrow> None
      | Some d' \<Rightarrow> euler_loop self temperature ph_constant oxygen_saturation is d')"

text \<open>
  \<open>simulate\<close> up to the end of its loop: the arrays of \<open>data\<close> as they stand before the
  data frame is built, unrounded.
\<close>

definition simulate_data ::
  "simulator \<Rightarrow> real \<Rightarrow> real \<Rightarrow> real \<Rightarrow> real \<Rightarrow> real \<Rightarrow> data option" where
  "simulate_data self initial_glucose initial_vcd temperature ph_constant oxygen_saturation = do {
     let n = length (time_points self);
     glucose0 \<leftarrow> np_set (replicate n 0) 0 initial_glucose;
     vcd0 \<leftarrow> np_set (replicate n 0) 0 initial_vcd;
     tcd0 \<leftarrow> np_set (replicate n 0) 0 initial_vcd;
     viability0 \<leftarrow> np_set (replicate n 0) 0 100.0;
     euler_loop self temperature ph_constant oxygen_saturation [1..<n]
       \<lparr> glucose = glucose0, vcd = vcd0, tcd = tcd0, dead_cells = replicate n 0,
         viability = viability0, antibody_titer = replicate n 0 \<rparr>
   }"

text \<open>
  The returned \<open>pd.DataFrame\<close>, column by column: \<open>Zeit (h)\<close>, \<open>Glukose (g/L)\<close>,
  \<open>VCD\<close>, \<open>TCD\<close>, \<open>Viabilitaet (%)\<close>, \<open>Antikoerper-Titer\<close>, \<open>Temperatur\<close>,
  \<open>pH\<close>, \<open>Sauerstoff (%)\<close>. The array \<open>dead_cells\<close> is not a column.
\<close>

record dataframe =
  Zeit :: "real list"
  Glukose :: "real list"
  VCD :: "real list"
  TCD :: "real list"
  Viabilitaet :: "real list"
  Antikoerper_Titer :: "real list"
  Temperatur :: "real list"
  pH :: "real list"
  Sauerstoff :: "real list"

definition simulate ::
  "simulator \<Rightarrow> real \<Rightarrow> real \<Rightarrow> real \<Rightarrow> real \<Rightarrow> real \<Rightarrow> dataframe option" where
  "simulate self initial_glucose initial_vcd temperature ph_constant oxygen_saturation = do {
     let n = length (time_points self);
     d \<leftarrow> simulate_data self initial_glucose initial_vcd temperature ph_constant
            oxygen_saturation;
     Some \<lparr> Zeit = map (\<lambda>x. np_round x 2) (time_points self),
            Glukose = map (\<lambda>x. np_round x 2) (glucose d),
            VCD = map (\<lambda>x. np_round x 2) (vcd d),
            TCD = map (\<lambda>x. np_round x 2) (tcd d),
            Viabilitaet = map (\<lambda>x. np_round x 2) (viability d),
            Antikoerper_Titer = map (\<lambda>x. np_round x 2) (antibody_titer d),
            Temperatur = replicate n temperature,
            pH = replicate n ph_constant,
            Sauerstoff = replicate n oxygen_saturation \<rparr>
   }"

section \<open>The Euler recurrence as the specification words it\<close>

text \<open>
  The specification's data model and its ten-step transition (Integrator, steps 1 to 10),
  written over the reals with ordinary division. It is the reference the code is compared
  with: the arrays of \<open>simulate_data\<close> are shown to hold its iterates.
\<close>

datatype factor = Temperature | PH | Dissolved_Oxygen | Glucose_Level

record SimulationConfig =
  cfg_duration :: real
  cfg_time_step :: real
  cfg_max_growth_rate :: real
  cfg_substrate_affinity :: real
  cfg_yield_coefficient :: real
  cfg_maintenance_coefficient :: real
  cfg_base_death_rate :: real
  cfg_antibody_productivity :: real
  cfg_inhibition_constant :: real
  cfg_optimal :: "factor \<Rightarrow> real"
  cfg_sigma :: "factor \<Rightarrow> real"

record state =
  st_glucose :: real
  st_vcd :: real
  st_tcd :: real
  st_dead :: real
  st_viability :: real
  st_titer :: real

definition gaussian_response :: "SimulationConfig \<Rightarrow> factor \<Rightarrow> real \<Rightarrow> real" where
  "gaussian_response c f reading =
     exp (- 0.5 * ((reading - cfg_optimal c f) / cfg_sigma c f)\<^sup>2)"

definition responses :: "SimulationConfig \<Rightarrow> real \<Rightarrow> real \<Rightarrow> real \<Rightarrow> real \<Rightarrow> real list" where
  "responses c temperature ph oxygen glc =
     [gaussian_response c Temperature temperature, gaussian_response c PH ph,
      gaussian_response c Dissolved_Oxygen oxygen, gaussian_response c Glucose_Level glc]"

definition activity_effect :: "SimulationConfig \<Rightarrow> real \<Rightarrow> real \<Rightarrow> real \<Rightarrow> real \<Rightarrow> real" where
  "activity_effect c temperature ph oxygen glc = prod_list (responses c temperature ph oxygen glc)"

definition stress_death_rate :: "SimulationConfig \<Rightarrow> real \<Rightarrow> real \<Rightarrow> real \<Rightarrow> real \<Rightarrow> real" where
  "stress_death_rate c temperature ph oxygen glc =
     cfg_base_death_rate c * prod_list (map (\<lambda>g. 1 / g) (responses c temperature ph oxygen glc))"

definition haldane :: "real \<Rightarrow> real \<Rightarrow> real \<Rightarrow> real" where
  "haldane substrate k_s k_i =
     (if substrate \<le> 0 then 0 else substrate / (k_s + substrate + substrate\<^sup>2 / k_i))"

definition specific_growth_rate ::
  "SimulationConfig \<Rightarrow> real \<Rightarrow> real \<Rightarrow> real \<Rightarrow> state \<Rightarrow> real" where
  "specific_growth_rate c temperature ph oxygen prev =
     (if st_vcd prev > 0
      then cfg_max_growth_rate c
           * haldane (st_glucose prev) (cfg_substrate_affinity c) (cfg_inhibition_constant c)
           * activity_effect c temperature ph oxygen (st_glucose prev)
      else 0)"

definition euler_step :: "SimulationConfig \<Rightarrow> real \<Rightarrow> real \<Rightarrow> real \<Rightarrow> state \<Rightarrow> state" where
  "euler_step c temperature ph oxygen prev =
     (let dt = cfg_time_step c;
          activity = activity_effect c temperature ph oxygen (st_glucose prev);
          death = stress_death_rate c temperature ph oxygen (st_glucose prev);
          growth_rate = specific_growth_rate c temperature ph oxygen prev;
          vcd_growth = growth_rate * st_vcd prev * dt;
          vcd_death = death * st_vcd prev * dt;
          new_vcd = max 0 (st_vcd prev + vcd_growth - vcd_death);
          new_dead = st_dead prev + vcd_death;
          new_tcd = new_vcd + new_dead;
          new_viability = (if new_tcd > 0 then new_vcd / new_tcd * 100 else 0);
          consumption = vcd_growth / cfg_yield_coefficient c
                        + cfg_maintenance_coefficient c * st_vcd prev * dt;
          new_glucose = max 0 (st_glucose prev - consumption);
          new_titer = (if new_vcd > 0
                       then st_titer prev + cfg_antibody_productivity c * new_vcd * dt * activity
                       else st_titer prev)
      in \<lparr> st_glucose = new_glucose, st_vcd = new_vcd, st_tcd = new_tcd, st_dead = new_dead,
           st_viability = new_viability, st_titer = new_titer \<rparr>)"

definition initial_state :: "real \<Rightarrow> real \<Rightarrow> state" where
  "initial_state initial_glucose initial_vcd =
     \<lparr> st_glucose = initial_glucose, st_vcd = initial_vcd, st_tcd = initial_vcd, st_dead = 0,
       st_viability = 100, st_titer = 0 \<rparr>"

fun exact_row ::
  "SimulationConfig \<Rightarrow> real \<Rightarrow> real \<Rightarrow> real \<Rightarrow> real \<Rightarrow> real \<Rightarrow> nat \<Rightarrow> state" where
  "exact_row c initial_glucose initial_vcd temperature ph oxygen 0 =
     initial_state initial_glucose initial_vcd"
| "exact_row c initial_glucose initial_vcd temperature ph oxygen (Suc i) =
     euler_step c temperature ph oxygen
       (exact_row c initial_glucose initial_vcd temperature ph oxygen i)"

text \<open>The configuration that \<open>__init__\<close> builds, in the specification's data model.\<close>

definition config_of :: "real \<Rightarrow> real \<Rightarrow> SimulationConfig" where
  "config_of duration' time_step' =
     \<lparr> cfg_duration = duration',
       cfg_time_step = time_step',
       cfg_max_growth_rate = 0.035,
       cfg_substrate_affinity = 2.0,
       cfg_yield_coefficient = 0.4,
       cfg_maintenance_coefficient = 0.02,
       cfg_base_death_rate = 0.005,
       cfg_antibody_productivity = 0.8,
       cfg_inhibition_constant = 50.0,
       cfg_optimal = (\<lambda>f. case f of Temperature \<Rightarrow> 37.0 | PH \<Rightarrow> 7.2
                           | Dissolved_Oxygen \<Rightarrow> 50.0 | Glucose_Level \<Rightarrow> 20),
       cfg_sigma = (\<lambda>f. case f of Temperature \<Rightarrow> 2.0 | PH \<Rightarrow> 0.4
                         | Dissolved_Oxygen \<Rightarrow> 20.0 | Glucose_Level \<Rightarrow> 40.0) \<rparr>"

text \<open>Row \<open>i\<close> of the arrays, read as a state, and the arrays' common length.\<close>

definition row :: "data \<Rightarrow> nat \<Rightarrow> state" where
  "row d i = \<lparr> st_glucose = glucose d ! i, st_vcd = vcd d ! i, st_tcd = tcd d ! i,
               st_dead = dead_cells d ! i, st_viability = viability d ! i,
               st_titer = antibody_titer d ! i \<rparr>"

definition put_row :: "data \<Rightarrow> nat \<Rightarrow> state \<Rightarrow> data" where
  "put_row d i r = \<lparr> glucose = (glucose d)[i := st_glucose r], vcd = (vcd d)[i := st_vcd r],
                     tcd = (tcd d)[i := st_tcd r], dead_cells = (dead_cells d)[i := st_dead r],
                     viability = (viability d)[i := st_viability r],
                     antibody_titer = (antibody_titer d)[i := st_titer r] \<rparr>"

definition rows :: "data \<Rightarrow> nat \<Rightarrow> bool" where
  "rows d n \<longleftrightarrow> length (glucose d) = n \<and> length (vcd d) = n \<and> length (tcd d) = n \<and>
                length (dead_cells d) = n \<and> length (viability d) = n \<and>
                length (antibody_titer d) = n"

section \<open>Substrate kinetics: range and inhibition\<close>

lemma py_div_Some [simp]: "b \<noteq> 0 \<Longrightarrow> py_div a b = Some (a / b)"
  by (simp add: py_div_def)

lemma py_div_zero [simp]: "py_div a 0 = None"
  by (simp add: py_div_def)

lemma monod_nonpos: "substrate \<le> 0 \<Longrightarrow> monod_kinetics substrate k_s k_i = Some 0"
  by (simp add: monod_kinetics_def)

lemma monod_plain:
  assumes "0 < substrate" and "0 < k_s"
  shows "monod_kinetics substrate k_s None = Some (substrate / (k_s + substrate))"
  using assms by (simp add: monod_kinetics_def)

lemma monod_haldane:
  assumes "0 < substrate" and "0 < k_s" and "0 < ki"
  shows "monod_kinetics substrate k_s (Some ki)
           = Some (substrate / (k_s + substrate + substrate\<^sup>2 / ki))"
proof -
  have "0 < substrate\<^sup>2 / ki" using assms by simp
  then have "k_s + substrate + substrate\<^sup>2 / ki \<noteq> 0" using assms by linarith
  then show ?thesis using assms by (simp add: monod_kinetics_def)
qed

lemma plain_factor_range:
  fixes s k :: real
  assumes "0 < s" and "0 < k"
  shows "0 \<le> s / (k + s)" and "s / (k + s) < 1"
  using assms by simp_all

lemma haldane_factor_range:
  fixes s k ki :: real
  assumes "0 < s" and "0 < k" and "0 < ki"
  shows "0 \<le> s / (k + s + s\<^sup>2 / ki)" and "s / (k + s + s\<^sup>2 / ki) < 1"
proof -
  have q: "0 < s\<^sup>2 / ki" using assms by simp
  then have d: "0 < k + s + s\<^sup>2 / ki" using assms by linarith
  show "0 \<le> s / (k + s + s\<^sup>2 / ki)" using assms d by simp
  have "s < k + s + s\<^sup>2 / ki" using assms q by linarith
  then show "s / (k + s + s\<^sup>2 / ki) < 1" using d by simp
qed

text \<open>
  Claim C6. With \<open>k_s > 0\<close> (and \<open>k_i > 0\<close> when it is given), \<open>monod_kinetics\<close>
  returns a number, and that number is in \<open>[0, 1)\<close>. The three cases are the code's, in
  its order: the result is 0 for every substrate \<open>\<le> 0\<close>; for a positive substrate it is
  \<open>substrate / (k_s + substrate)\<close> without \<open>k_i\<close> and
  \<open>substrate / (k_s + substrate + substrate\<^sup>2 / k_i)\<close> with it.
\<close>

theorem monod_kinetics_range:
  assumes "0 < k_s" and "case k_i of None \<Rightarrow> True | Some ki \<Rightarrow> 0 < ki"
  shows "\<exists>v. monod_kinetics substrate k_s k_i = Some v \<and> 0 \<le> v \<and> v < 1 \<and>
           v = (if substrate \<le> 0 then 0
                else case k_i of
                  None \<Rightarrow> substrate / (k_s + substrate)
                | Some ki \<Rightarrow> substrate / (k_s + substrate + substrate\<^sup>2 / ki))"
proof (cases "substrate \<le> 0")
  case True
  then show ?thesis by (simp add: monod_nonpos)
next
  case False
  then have pos: "0 < substrate" by simp
  show ?thesis
  proof (cases k_i)
    case None
    then show ?thesis
      using pos assms(1) monod_plain [OF pos assms(1)] plain_factor_range [OF pos assms(1)]
      by simp
  next
    case (Some ki)
    then have ki: "0 < ki" using assms(2) by simp
    show ?thesis
      using Some pos monod_haldane [OF pos assms(1) ki]
        haldane_factor_range [OF pos assms(1) ki]
      by simp
  qed
qed

theorem monod_kinetics_range_witness:
  "(0::real) < 2 \<and> (0::real) < 50 \<and> monod_kinetics 20 2 (Some 50) = Some (2 / 3)"
proof -
  have "\<exists>v. monod_kinetics 20 2 (Some 50) = Some v \<and> 0 \<le> v \<and> v < 1 \<and>
           v = (if (20::real) \<le> 0 then 0
                else case Some (50::real) of
                  None \<Rightarrow> 20 / (2 + 20)
                | Some ki \<Rightarrow> 20 / (2 + 20 + 20\<^sup>2 / ki))"
    using monod_kinetics_range [of 2 "Some 50" 20] by simp
  then show ?thesis by auto
qed

text \<open>
  Claim C7. For a positive substrate and positive \<open>k_s\<close>, \<open>k_i\<close>, both calls return a
  number, and the Haldane factor (with \<open>k_i\<close>) is strictly below the plain Monod factor
  (without it).
\<close>

theorem haldane_below_monod:
  assumes "0 < substrate" and "0 < k_s" and "0 < k_i"
  shows "\<exists>h m. monod_kinetics substrate k_s (Some k_i) = Some h \<and>
               monod_kinetics substrate k_s None = Some m \<and> h < m"
proof -
  have q: "0 < substrate\<^sup>2 / k_i" using assms by simp
  have d: "0 < k_s + substrate" using assms by linarith
  have "k_s + substrate < k_s + substrate + substrate\<^sup>2 / k_i" using q by linarith
  then have "substrate / (k_s + substrate + substrate\<^sup>2 / k_i) < substrate / (k_s + substrate)"
    using assms(1) d by (simp add: frac_less2)
  then show ?thesis
    using monod_haldane [OF assms] monod_plain [OF assms(1,2)] by simp
qed

theorem haldane_below_monod_witness:
  "(0::real) < 20 \<and> (0::real) < 2 \<and> (0::real) < 50 \<and>
   monod_kinetics 20 2 (Some 50) = Some (2 / 3) \<and> monod_kinetics 20 2 None = Some (10 / 11)"
proof -
  have "\<exists>h m. monod_kinetics 20 2 (Some 50) = Some h \<and>
               monod_kinetics 20 2 None = Some m \<and> h < m"
    using haldane_below_monod [of 20 2 50] by simp
  then show ?thesis by (auto simp: monod_kinetics_def)
qed

section \<open>The arrays hold the iterates of the recurrence\<close>

lemma np_get_Some [simp]: "i < length xs \<Longrightarrow> np_get xs i = Some (xs ! i)"
  by (simp add: np_get_def)

lemma np_set_Some [simp]: "i < length xs \<Longrightarrow> np_set xs i v = Some (xs[i := v])"
  by (simp add: np_set_def)

lemma init_Some:
  assumes "init dur ts = Some s"
  shows "ts \<noteq> 0"
    and "time_step s = ts"
    and "time_points s = map (\<lambda>i. real i * ts) [0..<nat \<lceil>(dur + ts) / ts\<rceil>]"
    and "max_growth_rate s = 0.035" and "substrate_affinity s = 2"
    and "yield_coefficient s = 0.4" and "maintenance_coefficient s = 0.02"
    and "death_rate s = 0.005" and "antibody_productivity s = 0.8"
    and "inhibition_constant s = 50"
    and "optimal s = [''temp'' \<mapsto> 37.0, ''ph'' \<mapsto> 7.2, ''oxygen'' \<mapsto> 50.0, ''glucose'' \<mapsto> 20]"
    and "sigma s = [''temp'' \<mapsto> 2.0, ''ph'' \<mapsto> 0.4, ''oxygen'' \<mapsto> 20.0, ''glucose'' \<mapsto> 40.0]"
  using assms by (auto simp: init_def arange_def split: if_splits)

lemma init_total: "ts \<noteq> 0 \<Longrightarrow> \<exists>s. init dur ts = Some s"
  by (simp add: init_def arange_def)

lemma stress_gaussian_Some:
  "sg \<noteq> 0 \<Longrightarrow> stress_gaussian dev sg = Some (exp (- 0.5 * (dev / sg)\<^sup>2))"
  by (simp add: stress_gaussian_def)

lemma evaluate_environment_init:
  assumes "init dur ts = Some s"
  shows "evaluate_environment s tmp ph ox G =
           Some (activity_effect (config_of dur ts) tmp ph ox G,
                 stress_death_rate (config_of dur ts) tmp ph ox G)"
  by (simp add: init_Some(8,11,12) [OF assms] evaluate_environment_def stress_gaussian_Some
      activity_effect_def stress_death_rate_def responses_def gaussian_response_def config_of_def)

lemma monod_init:
  "monod_kinetics G 2 (Some 50) = Some (haldane G 2 50)"
proof (cases "G \<le> 0")
  case True then show ?thesis by (simp add: monod_nonpos haldane_def)
next
  case False
  then show ?thesis using monod_haldane [of G 2 50] by (simp add: haldane_def)
qed

lemma cfg_simps [simp]:
  "cfg_time_step (config_of dur ts) = ts"
  "cfg_max_growth_rate (config_of dur ts) = 0.035"
  "cfg_substrate_affinity (config_of dur ts) = 2"
  "cfg_yield_coefficient (config_of dur ts) = 0.4"
  "cfg_maintenance_coefficient (config_of dur ts) = 0.02"
  "cfg_base_death_rate (config_of dur ts) = 0.005"
  "cfg_antibody_productivity (config_of dur ts) = 0.8"
  "cfg_inhibition_constant (config_of dur ts) = 50"
  by (simp_all add: config_of_def)

lemma if_Some_update:
  "(if c then Some (xs[i := a]) else Some (xs[i := b])) = Some (xs[i := (if c then a else b)])"
  by simp

lemma euler_body_init:
  assumes s: "init dur ts = Some s" and r: "rows d n" and i: "1 \<le> i" "i < n"
  shows "euler_body s tmp ph ox i d =
           Some (put_row d i (euler_step (config_of dur ts) tmp ph ox (row d (i - 1))))"
proof -
  have len: "i - 1 < length (glucose d)" "i - 1 < length (vcd d)"
    "i - 1 < length (dead_cells d)" "i - 1 < length (antibody_titer d)"
    "i < length (glucose d)" "i < length (vcd d)" "i < length (tcd d)"
    "i < length (dead_cells d)" "i < length (viability d)" "i < length (antibody_titer d)"
    using r i by (simp_all add: rows_def)
  have y: "py_div x (0.4::real) = Some (x / 0.4)" for x
    by (simp add: py_div_def)
  show ?thesis
    unfolding euler_body_def euler_step_def put_row_def specific_growth_rate_def row_def
    by (simp only: len np_get_Some np_set_Some init_Some(2,4-10) [OF s]
        evaluate_environment_init [OF s] monod_init y cfg_simps
        Option.bind.simps Let_def prod.case state.simps data.simps
        length_list_update nth_list_update_eq if_Some_update)
qed

lemma rows_put_row [simp]: "rows (put_row d i r) n = rows d n"
  by (simp add: rows_def put_row_def)

lemma row_put_row:
  "rows d n \<Longrightarrow> i < n \<Longrightarrow> row (put_row d i r) j = (if j = i then r else row d j)"
  by (simp add: rows_def put_row_def row_def)

lemma euler_loop_init:
  assumes s: "init dur ts = Some s"
  shows "rows d n \<Longrightarrow> 1 \<le> k \<Longrightarrow> k + m \<le> n \<Longrightarrow>
         \<exists>d'. euler_loop s tmp ph ox [k..<k + m] d = Some d' \<and> rows d' n \<and>
              (\<forall>j<k. row d' j = row d j) \<and>
              (\<forall>j. k \<le> j \<and> j < k + m \<longrightarrow>
                   row d' j = euler_step (config_of dur ts) tmp ph ox (row d' (j - 1)))"
proof (induction m arbitrary: k d)
  case 0
  then show ?case by simp
next
  case (Suc m)
  let ?d1 = "put_row d k (euler_step (config_of dur ts) tmp ph ox (row d (k - 1)))"
  have kn: "k < n" using Suc.prems by simp
  have body: "euler_body s tmp ph ox k d = Some ?d1"
    using euler_body_init [OF s Suc.prems(1) Suc.prems(2) kn] .
  have r1: "rows ?d1 n" using Suc.prems(1) by simp
  obtain d' where loop: "euler_loop s tmp ph ox [Suc k..<Suc k + m] ?d1 = Some d'"
    and r': "rows d' n"
    and low: "\<forall>j<Suc k. row d' j = row ?d1 j"
    and high: "\<forall>j. Suc k \<le> j \<and> j < Suc k + m \<longrightarrow>
                 row d' j = euler_step (config_of dur ts) tmp ph ox (row d' (j - 1))"
    using Suc.IH [OF r1, of "Suc k"] Suc.prems by auto
  have split: "[k..<k + Suc m] = k # [Suc k..<Suc k + m]"
    by (simp add: upt_conv_Cons)
  have run: "euler_loop s tmp ph ox [k..<k + Suc m] d = Some d'"
    by (simp only: split euler_loop.simps body option.case loop)
  have keep: "row d' j = row d j" if "j < k" for j
    using low that row_put_row [OF Suc.prems(1) kn] by simp
  have at_k: "row d' k = euler_step (config_of dur ts) tmp ph ox (row d' (k - 1))"
  proof -
    have "row d' k = euler_step (config_of dur ts) tmp ph ox (row d (k - 1))"
      using low row_put_row [OF Suc.prems(1) kn] by simp
    moreover have "row d' (k - 1) = row d (k - 1)"
      using keep [of "k - 1"] Suc.prems(2) by simp
    ultimately show ?thesis by simp
  qed
  have step: "row d' j = euler_step (config_of dur ts) tmp ph ox (row d' (j - 1))"
    if "k \<le> j" "j < k + Suc m" for j
  proof (cases "j = k")
    case True
    then show ?thesis using at_k by simp
  next
    case False
    then show ?thesis using high that by simp
  qed
  show ?case using run r' keep step by blast
qed

lemma simulate_data_rows:
  assumes s: "init dur ts = Some s" and n: "0 < length (time_points s)"
  shows "\<exists>d. simulate_data s g0 v0 tmp ph ox = Some d \<and> rows d (length (time_points s)) \<and>
             (\<forall>i<length (time_points s).
                 row d i = exact_row (config_of dur ts) g0 v0 tmp ph ox i)"
proof -
  let ?n = "length (time_points s)"
  let ?d0 = "\<lparr> glucose = (replicate ?n 0)[0 := g0], vcd = (replicate ?n 0)[0 := v0],
               tcd = (replicate ?n 0)[0 := v0], dead_cells = replicate ?n 0,
               viability = (replicate ?n 0)[0 := 100], antibody_titer = replicate ?n 0 \<rparr>"
  have r0: "rows ?d0 ?n" by (simp add: rows_def)
  have row0: "row ?d0 0 = initial_state g0 v0"
    using n by (simp add: row_def initial_state_def)
  have sd: "simulate_data s g0 v0 tmp ph ox = euler_loop s tmp ph ox [1..<?n] ?d0"
    using n by (simp add: simulate_data_def Let_def)
  have idx: "[1..<?n] = [1..<1 + (?n - 1)]" using n by simp
  obtain d where loop: "euler_loop s tmp ph ox [1..<1 + (?n - 1)] ?d0 = Some d"
    and r: "rows d ?n"
    and low: "\<forall>j<1. row d j = row ?d0 j"
    and high: "\<forall>j. 1 \<le> j \<and> j < 1 + (?n - 1) \<longrightarrow>
                 row d j = euler_step (config_of dur ts) tmp ph ox (row d (j - 1))"
    using euler_loop_init [OF s r0, of 1 "?n - 1" tmp ph ox] n by auto
  have "i < ?n \<Longrightarrow> row d i = exact_row (config_of dur ts) g0 v0 tmp ph ox i" for i
  proof (induction i)
    case 0
    then show ?case using low row0 by simp
  next
    case (Suc i)
    then have "row d (Suc i) = euler_step (config_of dur ts) tmp ph ox (row d i)"
      using high by simp
    then show ?case using Suc by simp
  qed
  then show ?thesis using sd idx loop r by auto
qed

lemma euler_step_fields:
  "st_vcd (euler_step c tmp ph ox prev) =
     max 0 (st_vcd prev
            + specific_growth_rate c tmp ph ox prev * st_vcd prev * cfg_time_step c
            - stress_death_rate c tmp ph ox (st_glucose prev) * st_vcd prev * cfg_time_step c)"
  "st_dead (euler_step c tmp ph ox prev) =
     st_dead prev + stress_death_rate c tmp ph ox (st_glucose prev) * st_vcd prev * cfg_time_step c"
  "st_tcd (euler_step c tmp ph ox prev) =
     st_vcd (euler_step c tmp ph ox prev) + st_dead (euler_step c tmp ph ox prev)"
  "st_viability (euler_step c tmp ph ox prev) =
     (if st_tcd (euler_step c tmp ph ox prev) > 0
      then st_vcd (euler_step c tmp ph ox prev) / st_tcd (euler_step c tmp ph ox prev) * 100
      else 0)"
  "st_glucose (euler_step c tmp ph ox prev) =
     max 0 (st_glucose prev
            - (specific_growth_rate c tmp ph ox prev * st_vcd prev * cfg_time_step c
                 / cfg_yield_coefficient c
               + cfg_maintenance_coefficient c * st_vcd prev * cfg_time_step c))"
  "st_titer (euler_step c tmp ph ox prev) =
     (if st_vcd (euler_step c tmp ph ox prev) > 0
      then st_titer prev
           + cfg_antibody_productivity c * st_vcd (euler_step c tmp ph ox prev) * cfg_time_step c
             * activity_effect c tmp ph ox (st_glucose prev)
      else st_titer prev)"
  by (simp_all only: euler_step_def Let_def state.simps)

lemma gaussian_pos: "0 < gaussian_response c f x"
  by (simp add: gaussian_response_def)

lemma activity_pos: "0 < activity_effect c tmp ph ox g"
  by (simp add: activity_effect_def responses_def gaussian_pos)

lemma death_pos: "0 < cfg_base_death_rate c \<Longrightarrow> 0 < stress_death_rate c tmp ph ox g"
  by (simp add: stress_death_rate_def responses_def gaussian_pos)

lemma haldane_nonneg: "0 \<le> k_s \<Longrightarrow> 0 < k_i \<Longrightarrow> 0 \<le> haldane g k_s k_i"
  by (simp add: haldane_def)

lemma growth_nonneg: "0 \<le> specific_growth_rate (config_of dur ts) tmp ph ox prev"
  using activity_pos [of "config_of dur ts" tmp ph ox "st_glucose prev"]
    haldane_nonneg [of 2 50 "st_glucose prev"]
  by (simp add: specific_growth_rate_def less_imp_le)

section \<open>Invariants of the recurrence\<close>

lemma time_points_length:
  "init dur ts = Some s \<Longrightarrow> length (time_points s) = nat \<lceil>(dur + ts) / ts\<rceil>"
  by (simp add: init_Some(3))

lemma valid_config_length:
  fixes dur ts :: real
  assumes "0 < ts" and "ts \<le> dur"
  shows "2 \<le> nat \<lceil>(dur + ts) / ts\<rceil>"
proof -
  have "1 \<le> dur / ts" using assms by simp
  then have "2 \<le> (dur + ts) / ts" using assms by (simp add: add_divide_distrib)
  then have "(2::int) \<le> \<lceil>(dur + ts) / ts\<rceil>" by (simp add: le_ceiling_iff)
  then show ?thesis by linarith
qed

lemma valid_run:
  assumes "0 < ts" and "ts \<le> dur"
  shows "\<exists>s d. init dur ts = Some s \<and> simulate_data s g0 v0 tmp ph ox = Some d \<and>
           rows d (length (time_points s)) \<and> 2 \<le> length (time_points s) \<and>
           (\<forall>i<length (time_points s).
               row d i = exact_row (config_of dur ts) g0 v0 tmp ph ox i)"
proof -
  obtain s where s: "init dur ts = Some s"
    using init_total [of ts dur] assms by auto
  have n: "2 \<le> length (time_points s)"
    using time_points_length [OF s] valid_config_length [OF assms] by simp
  then have "0 < length (time_points s)" by linarith
  from simulate_data_rows [OF s this, of g0 v0 tmp ph ox] s n show ?thesis by blast
qed

lemma row_fields:
  "st_glucose (row d i) = glucose d ! i" "st_vcd (row d i) = vcd d ! i"
  "st_tcd (row d i) = tcd d ! i" "st_dead (row d i) = dead_cells d ! i"
  "st_viability (row d i) = viability d ! i" "st_titer (row d i) = antibody_titer d ! i"
  by (simp_all add: row_def)

lemma exact_tcd:
  "st_tcd (exact_row c g0 v0 tmp ph ox i) =
     st_vcd (exact_row c g0 v0 tmp ph ox i) + st_dead (exact_row c g0 v0 tmp ph ox i)"
  by (cases i) (simp_all add: initial_state_def euler_step_fields(3))

lemma step_vcd_nonneg: "0 \<le> st_vcd (euler_step c tmp ph ox prev)"
  by (simp add: euler_step_fields(1))

lemma step_glucose_nonneg: "0 \<le> st_glucose (euler_step c tmp ph ox prev)"
  by (simp add: euler_step_fields(5))

lemma exact_vcd_nonneg:
  "0 \<le> v0 \<or> 0 < i \<Longrightarrow> 0 \<le> st_vcd (exact_row c g0 v0 tmp ph ox i)"
  by (cases i) (simp_all add: initial_state_def euler_step_fields(1))

lemma exact_glucose_nonneg:
  "0 \<le> g0 \<or> 0 < i \<Longrightarrow> 0 \<le> st_glucose (exact_row c g0 v0 tmp ph ox i)"
  by (cases i) (simp_all add: initial_state_def euler_step_fields(5))

lemma exact_dead_step:
  assumes "0 \<le> ts" and "0 \<le> v0"
  shows "st_dead (exact_row (config_of dur ts) g0 v0 tmp ph ox i)
           \<le> st_dead (exact_row (config_of dur ts) g0 v0 tmp ph ox (Suc i))"
proof -
  let ?r = "exact_row (config_of dur ts) g0 v0 tmp ph ox i"
  have v: "0 \<le> st_vcd ?r" using assms(2) by (simp add: exact_vcd_nonneg)
  have "0 \<le> stress_death_rate (config_of dur ts) tmp ph ox (st_glucose ?r)"
    using death_pos [of "config_of dur ts" tmp ph ox "st_glucose ?r"] by simp
  then have "0 \<le> stress_death_rate (config_of dur ts) tmp ph ox (st_glucose ?r) * st_vcd ?r * ts"
    using v assms(1) by simp
  then show ?thesis by (simp add: euler_step_fields(2))
qed

lemma exact_dead_mono:
  assumes "0 \<le> ts" and "0 \<le> v0" and "i \<le> j"
  shows "st_dead (exact_row (config_of dur ts) g0 v0 tmp ph ox i)
           \<le> st_dead (exact_row (config_of dur ts) g0 v0 tmp ph ox j)"
  using assms(3)
proof (induction j)
  case 0
  then show ?case by simp
next
  case (Suc j)
  show ?case
  proof (cases "i = Suc j")
    case True
    then show ?thesis by simp
  next
    case False
    then have "i \<le> j" using Suc.prems by simp
    then show ?thesis
      using Suc.IH exact_dead_step [OF assms(1,2), of dur g0 tmp ph ox j] by linarith
  qed
qed

lemma exact_dead_nonneg:
  assumes "0 \<le> ts" and "0 \<le> v0"
  shows "0 \<le> st_dead (exact_row (config_of dur ts) g0 v0 tmp ph ox i)"
  using exact_dead_mono [OF assms, of 0 i dur g0 tmp ph ox] by (simp add: initial_state_def)

lemma exact_titer_step:
  assumes "0 \<le> ts"
  shows "st_titer (exact_row (config_of dur ts) g0 v0 tmp ph ox i)
           \<le> st_titer (exact_row (config_of dur ts) g0 v0 tmp ph ox (Suc i))"
proof -
  let ?r = "exact_row (config_of dur ts) g0 v0 tmp ph ox i"
  let ?r' = "exact_row (config_of dur ts) g0 v0 tmp ph ox (Suc i)"
  have v: "0 \<le> st_vcd ?r'" by (simp add: step_vcd_nonneg)
  have a: "0 \<le> activity_effect (config_of dur ts) tmp ph ox (st_glucose ?r)"
    using activity_pos [of "config_of dur ts" tmp ph ox "st_glucose ?r"] by simp
  have "0 \<le> 0.8 * st_vcd ?r' * ts * activity_effect (config_of dur ts) tmp ph ox (st_glucose ?r)"
    using v a assms by simp
  then show ?thesis
    using euler_step_fields(6) [of "config_of dur ts" tmp ph ox ?r] by (simp split: if_splits)
qed

lemma exact_titer_mono:
  assumes "0 \<le> ts" and "i \<le> j"
  shows "st_titer (exact_row (config_of dur ts) g0 v0 tmp ph ox i)
           \<le> st_titer (exact_row (config_of dur ts) g0 v0 tmp ph ox j)"
  using assms(2)
proof (induction j)
  case 0
  then show ?case by simp
next
  case (Suc j)
  show ?case
  proof (cases "i = Suc j")
    case True
    then show ?thesis by simp
  next
    case False
    then have "i \<le> j" using Suc.prems by simp
    then show ?thesis
      using Suc.IH exact_titer_step [OF assms(1), of dur g0 v0 tmp ph ox j] by linarith
  qed
qed

lemma ratio_range:
  fixes v t :: real
  assumes "0 \<le> v" and "v \<le> t"
  shows "0 \<le> (if t > 0 then v / t * 100 else 0)" and "(if t > 0 then v / t * 100 else 0) \<le> 100"
  using assms by (simp_all add: divide_le_eq)

lemma exact_viability_range:
  assumes "0 \<le> ts" and "0 \<le> v0"
  shows "0 \<le> st_viability (exact_row (config_of dur ts) g0 v0 tmp ph ox i)"
    and "st_viability (exact_row (config_of dur ts) g0 v0 tmp ph ox i) \<le> 100"
proof -
  have "0 \<le> st_viability (exact_row (config_of dur ts) g0 v0 tmp ph ox i) \<and>
        st_viability (exact_row (config_of dur ts) g0 v0 tmp ph ox i) \<le> 100"
  proof (cases i)
    case 0
    then show ?thesis by (simp add: initial_state_def)
  next
    case (Suc k)
    let ?r = "exact_row (config_of dur ts) g0 v0 tmp ph ox (Suc k)"
    have v: "0 \<le> st_vcd ?r" by (simp add: step_vcd_nonneg)
    have "0 \<le> st_dead ?r" using exact_dead_nonneg [OF assms] .
    then have t: "st_vcd ?r \<le> st_tcd ?r" using exact_tcd [of "config_of dur ts" g0 v0 tmp ph ox "Suc k"] by simp
    have "st_viability ?r = (if st_tcd ?r > 0 then st_vcd ?r / st_tcd ?r * 100 else 0)"
      using euler_step_fields(4) [of "config_of dur ts" tmp ph ox] by simp
    then show ?thesis using ratio_range [OF v t] Suc by simp
  qed
  then show "0 \<le> st_viability (exact_row (config_of dur ts) g0 v0 tmp ph ox i)"
    and "st_viability (exact_row (config_of dur ts) g0 v0 tmp ph ox i) \<le> 100" by simp_all
qed

lemma exact_viability_zero:
  "st_tcd (exact_row c g0 v0 tmp ph ox (Suc i)) = 0 \<Longrightarrow>
   st_viability (exact_row c g0 v0 tmp ph ox (Suc i)) = 0"
  using euler_step_fields(4) [of c tmp ph ox] by simp

section \<open>Properties of a run\<close>

lemma env_optimal:
  "activity_effect (config_of dur ts) 37 (36 / 5) 50 20 = 1"
  "stress_death_rate (config_of dur ts) 37 (36 / 5) 50 20 = 1 / 200"
  by (simp_all add: activity_effect_def stress_death_rate_def responses_def
      gaussian_response_def config_of_def)

lemma exact_extinct:
  "st_vcd (exact_row c g0 0 tmp ph ox i) = 0 \<and>
   st_titer (exact_row c g0 0 tmp ph ox i) = 0 \<and>
   st_glucose (exact_row c g0 0 tmp ph ox i) = (if i = 0 then g0 else max 0 g0)"
proof (induction i)
  case 0
  then show ?case by (simp add: initial_state_def)
next
  case (Suc i)
  let ?r = "exact_row c g0 0 tmp ph ox i"
  have v: "st_vcd ?r = 0" and t: "st_titer ?r = 0"
    and g: "st_glucose ?r = (if i = 0 then g0 else max 0 g0)"
    using Suc.IH by simp_all
  have gr: "specific_growth_rate c tmp ph ox ?r = 0"
    using v by (simp add: specific_growth_rate_def)
  have v': "st_vcd (euler_step c tmp ph ox ?r) = 0"
    by (simp add: euler_step_fields(1) v)
  have t': "st_titer (euler_step c tmp ph ox ?r) = 0"
    by (simp add: euler_step_fields(6) v' t)
  have g': "st_glucose (euler_step c tmp ph ox ?r) = max 0 g0"
    by (simp add: euler_step_fields(5) v g)
  show ?case using v' t' g' by simp
qed

text \<open>
  Claim C2. For every valid configuration (\<open>time_step > 0\<close>, \<open>duration \<ge> time_step\<close>)
  and every run, \<open>simulate\<close> reaches the end of its loop, and at every index \<open>i\<close> of the
  unrounded arrays \<open>tcd[i] = vcd[i] + dead_cells[i]\<close> holds exactly.
\<close>

theorem tcd_is_vcd_plus_dead:
  assumes "0 < ts" and "ts \<le> dur"
  shows "\<exists>s d. init dur ts = Some s \<and> simulate_data s g0 v0 tmp ph ox = Some d \<and>
           rows d (length (time_points s)) \<and>
           (\<forall>i<length (time_points s). tcd d ! i = vcd d ! i + dead_cells d ! i)"
proof -
  obtain s d where s: "init dur ts = Some s"
    and d: "simulate_data s g0 v0 tmp ph ox = Some d"
    and r: "rows d (length (time_points s))"
    and e: "\<forall>i<length (time_points s). row d i = exact_row (config_of dur ts) g0 v0 tmp ph ox i"
    using valid_run [OF assms, of g0 v0 tmp ph ox] by blast
  have "tcd d ! i = vcd d ! i + dead_cells d ! i" if "i < length (time_points s)" for i
    using exact_tcd [of "config_of dur ts" g0 v0 tmp ph ox i] e that
    by (simp flip: row_fields)
  then show ?thesis using s d r by blast
qed

theorem tcd_is_vcd_plus_dead_witness:
  "(0::real) < 1 \<and> (1::real) \<le> 2 \<and>
   (\<exists>s d. init 2 1 = Some s \<and> simulate_data s 25 0.5 37 7.2 50 = Some d \<and>
      length (time_points s) = 3 \<and> length (tcd d) = 3 \<and>
      tcd d ! 2 = vcd d ! 2 + dead_cells d ! 2)"
proof -
  obtain s d where s: "init 2 1 = Some s"
    and d: "simulate_data s 25 0.5 37 7.2 50 = Some d"
    and r: "rows d (length (time_points s))"
    and e: "\<forall>i<length (time_points s). tcd d ! i = vcd d ! i + dead_cells d ! i"
    using tcd_is_vcd_plus_dead [of 1 2 25 "0.5" 37 "7.2" 50] by auto
  have n: "length (time_points s) = 3"
    using time_points_length [OF s] by simp
  show ?thesis using s d r e n by (auto simp: rows_def)
qed

text \<open>
  Claim C4. For every run with \<open>initial_glucose \<ge> 0\<close> and \<open>initial_vcd \<ge> 0\<close>, every
  row \<open>i\<close> (row 0 included) of the unrounded arrays has \<open>glucose[i] \<ge> 0\<close> and
  \<open>vcd[i] \<ge> 0\<close>.
\<close>

theorem glucose_vcd_nonneg:
  assumes "0 < ts" and "ts \<le> dur" and "0 \<le> g0" and "0 \<le> v0"
  shows "\<exists>s d. init dur ts = Some s \<and> simulate_data s g0 v0 tmp ph ox = Some d \<and>
           rows d (length (time_points s)) \<and>
           (\<forall>i<length (time_points s). 0 \<le> glucose d ! i \<and> 0 \<le> vcd d ! i)"
proof -
  obtain s d where s: "init dur ts = Some s"
    and d: "simulate_data s g0 v0 tmp ph ox = Some d"
    and r: "rows d (length (time_points s))"
    and e: "\<forall>i<length (time_points s). row d i = exact_row (config_of dur ts) g0 v0 tmp ph ox i"
    using valid_run [OF assms(1,2), of g0 v0 tmp ph ox] by blast
  have "0 \<le> glucose d ! i \<and> 0 \<le> vcd d ! i" if "i < length (time_points s)" for i
    using exact_glucose_nonneg [of g0 i "config_of dur ts" v0 tmp ph ox]
      exact_vcd_nonneg [of v0 i "config_of dur ts" g0 tmp ph ox] assms(3,4) e that
    by (simp flip: row_fields)
  then show ?thesis using s d r by blast
qed

theorem glucose_vcd_nonneg_witness:
  "(0::real) < 1 \<and> (1::real) \<le> 2 \<and> (0::real) \<le> 25 \<and> (0::real) \<le> 0.5 \<and>
   (\<exists>s d. init 2 1 = Some s \<and> simulate_data s 25 0.5 37 7.2 50 = Some d \<and>
      length (time_points s) = 3 \<and> 0 \<le> glucose d ! 2 \<and> 0 \<le> vcd d ! 2)"
proof -
  obtain s d where s: "init 2 1 = Some s"
    and d: "simulate_data s 25 0.5 37 7.2 50 = Some d"
    and e: "\<forall>i<length (time_points s). 0 \<le> glucose d ! i \<and> 0 \<le> vcd d ! i"
    using glucose_vcd_nonneg [of 1 2 25 "0.5" 37 "7.2" 50] by auto
  have n: "length (time_points s) = 3"
    using time_points_length [OF s] by simp
  show ?thesis using s d e n by auto
qed

text \<open>
  Claim C3, as stated, fails: \<open>simulate\<close> takes any number as \<open>initial_vcd\<close>, and with
  \<open>initial_vcd = -1\<close> the first pass of the loop adds \<open>death_rate * (-1) * dt < 0\<close> to
  \<open>dead_cells\<close>, so the sequence falls from row 0 to row 1.
\<close>

theorem dead_cells_decrease_counterexample:
  "\<exists>s d. init 2 1 = Some s \<and> simulate_data s 20 (- 1) 37 7.2 50 = Some d \<and>
     dead_cells d ! 0 = 0 \<and> dead_cells d ! 1 = - 0.005 \<and> dead_cells d ! 1 < dead_cells d ! 0"
proof -
  obtain s d where s: "init 2 1 = Some s"
    and d: "simulate_data s 20 (- 1) 37 7.2 50 = Some d"
    and n: "2 \<le> length (time_points s)"
    and e: "\<forall>i<length (time_points s). row d i = exact_row (config_of 2 1) 20 (- 1) 37 7.2 50 i"
    using valid_run [of 1 2 20 "- 1" 37 "7.2" 50] by auto
  have l: "0 < length (time_points s)" "1 < length (time_points s)"
    using n by linarith+
  have r0: "row d 0 = exact_row (config_of 2 1) 20 (- 1) 37 7.2 50 0"
    using e [rule_format, OF l(1)] .
  have r1: "row d 1 = exact_row (config_of 2 1) 20 (- 1) 37 7.2 50 (Suc 0)"
    using e [rule_format, OF l(2)] by simp
  have d0: "dead_cells d ! 0 = 0"
    using r0 by (simp flip: row_fields add: initial_state_def)
  have d1: "dead_cells d ! 1 = - 0.005"
    using r1 by (simp flip: row_fields add: initial_state_def euler_step_fields(2) env_optimal)
  show ?thesis using s d d0 d1 by simp
qed

text \<open>
  Claim C3, amended. For every run, \<open>antibody_titer\<close> is non-decreasing in \<open>i\<close>; for
  every run with \<open>initial_vcd \<ge> 0\<close>, \<open>dead_cells\<close> is non-decreasing in \<open>i\<close> as well.
\<close>

theorem titer_dead_monotone:
  assumes "0 < ts" and "ts \<le> dur"
  shows "\<exists>s d. init dur ts = Some s \<and> simulate_data s g0 v0 tmp ph ox = Some d \<and>
           rows d (length (time_points s)) \<and>
           (\<forall>i j. i \<le> j \<and> j < length (time_points s) \<longrightarrow>
              antibody_titer d ! i \<le> antibody_titer d ! j \<and>
              (0 \<le> v0 \<longrightarrow> dead_cells d ! i \<le> dead_cells d ! j))"
proof -
  obtain s d where s: "init dur ts = Some s"
    and d: "simulate_data s g0 v0 tmp ph ox = Some d"
    and r: "rows d (length (time_points s))"
    and e: "\<forall>i<length (time_points s). row d i = exact_row (config_of dur ts) g0 v0 tmp ph ox i"
    using valid_run [OF assms, of g0 v0 tmp ph ox] by blast
  have ts: "0 \<le> ts" using assms(1) by simp
  have "antibody_titer d ! i \<le> antibody_titer d ! j \<and>
        (0 \<le> v0 \<longrightarrow> dead_cells d ! i \<le> dead_cells d ! j)"
    if "i \<le> j" "j < length (time_points s)" for i j
  proof -
    have ri: "row d i = exact_row (config_of dur ts) g0 v0 tmp ph ox i"
      and rj: "row d j = exact_row (config_of dur ts) g0 v0 tmp ph ox j"
      using e that by simp_all
    have "st_titer (row d i) \<le> st_titer (row d j)"
      using exact_titer_mono [OF ts that(1), of dur g0 v0 tmp ph ox] ri rj by simp
    moreover have "st_dead (row d i) \<le> st_dead (row d j)" if "0 \<le> v0"
      using exact_dead_mono [OF ts that \<open>i \<le> j\<close>, of dur g0 tmp ph ox] ri rj by simp
    ultimately show ?thesis by (simp add: row_fields)
  qed
  then show ?thesis using s d r by blast
qed

theorem titer_dead_monotone_witness:
  "(0::real) < 1 \<and> (1::real) \<le> 2 \<and> (0::real) \<le> 0.5 \<and>
   (\<exists>s d. init 2 1 = Some s \<and> simulate_data s 25 0.5 37 7.2 50 = Some d \<and>
      length (time_points s) = 3 \<and>
      antibody_titer d ! 1 \<le> antibody_titer d ! 2 \<and> dead_cells d ! 1 \<le> dead_cells d ! 2)"
proof -
  obtain s d where s: "init 2 1 = Some s"
    and d: "simulate_data s 25 0.5 37 7.2 50 = Some d"
    and e: "\<forall>i j. i \<le> j \<and> j < length (time_points s) \<longrightarrow>
              antibody_titer d ! i \<le> antibody_titer d ! j \<and>
              ((0::real) \<le> 0.5 \<longrightarrow> dead_cells d ! i \<le> dead_cells d ! j)"
    using titer_dead_monotone [of 1 2 25 "0.5" 37 "7.2" 50] by auto
  have n: "length (time_points s) = 3"
    using time_points_length [OF s] by simp
  have "antibody_titer d ! 1 \<le> antibody_titer d ! 2 \<and> dead_cells d ! 1 \<le> dead_cells d ! 2"
    using e [rule_format, of 1 2] n by simp
  then show ?thesis using s d n by auto
qed

text \<open>
  Claim C1, as stated, fails at row 0: \<open>simulate\<close> sets \<open>viability[0] = 100\<close> whatever
  \<open>initial_vcd\<close> is, so a run started with \<open>initial_vcd = 0\<close> has \<open>tcd[0] = 0\<close> and
  \<open>viability[0] = 100\<close>.
\<close>

theorem viability_row0_counterexample:
  "\<exists>s d. init 2 1 = Some s \<and> simulate_data s 25 0 37 7.2 50 = Some d \<and>
     tcd d ! 0 = 0 \<and> viability d ! 0 = 100"
proof -
  obtain s d where s: "init 2 1 = Some s"
    and d: "simulate_data s 25 0 37 7.2 50 = Some d"
    and n: "2 \<le> length (time_points s)"
    and e: "\<forall>i<length (time_points s). row d i = exact_row (config_of 2 1) 25 0 37 7.2 50 i"
    using valid_run [of 1 2 25 0 37 "7.2" 50] by auto
  have l: "0 < length (time_points s)" using n by linarith
  have r0: "row d 0 = exact_row (config_of 2 1) 25 0 37 7.2 50 0"
    using e [rule_format, OF l] .
  have "tcd d ! 0 = 0" and "viability d ! 0 = 100"
    using r0 by (simp_all flip: row_fields add: initial_state_def)
  then show ?thesis using s d by simp
qed

text \<open>
  Claim C1, amended. For every run, row 0 has \<open>viability[0] = 100\<close>, and every later row
  \<open>i \<ge> 1\<close> has \<open>viability[i] = 0\<close> whenever \<open>tcd[i] = 0\<close>; for every run with
  \<open>initial_vcd \<ge> 0\<close>, \<open>viability[i]\<close> lies in \<open>[0, 100]\<close> at every row.
\<close>

theorem viability_range:
  assumes "0 < ts" and "ts \<le> dur"
  shows "\<exists>s d. init dur ts = Some s \<and> simulate_data s g0 v0 tmp ph ox = Some d \<and>
           rows d (length (time_points s)) \<and> viability d ! 0 = 100 \<and>
           (\<forall>i<length (time_points s).
              (0 \<le> v0 \<longrightarrow> 0 \<le> viability d ! i \<and> viability d ! i \<le> 100) \<and>
              (0 < i \<and> tcd d ! i = 0 \<longrightarrow> viability d ! i = 0))"
proof -
  obtain s d where s: "init dur ts = Some s"
    and d: "simulate_data s g0 v0 tmp ph ox = Some d"
    and r: "rows d (length (time_points s))"
    and n: "2 \<le> length (time_points s)"
    and e: "\<forall>i<length (time_points s). row d i = exact_row (config_of dur ts) g0 v0 tmp ph ox i"
    using valid_run [OF assms, of g0 v0 tmp ph ox] by blast
  have ts: "0 \<le> ts" using assms(1) by simp
  have l: "0 < length (time_points s)" using n by linarith
  have "row d 0 = exact_row (config_of dur ts) g0 v0 tmp ph ox 0"
    using e [rule_format, OF l] .
  then have v0: "viability d ! 0 = 100"
    by (simp flip: row_fields add: initial_state_def)
  have "(0 \<le> v0 \<longrightarrow> 0 \<le> viability d ! i \<and> viability d ! i \<le> 100) \<and>
        (0 < i \<and> tcd d ! i = 0 \<longrightarrow> viability d ! i = 0)"
    if "i < length (time_points s)" for i
  proof -
    have ri: "row d i = exact_row (config_of dur ts) g0 v0 tmp ph ox i"
      using e that by simp
    have "0 \<le> st_viability (row d i) \<and> st_viability (row d i) \<le> 100" if "0 \<le> v0"
      using exact_viability_range [OF ts that, of dur g0 tmp ph ox i] ri by simp
    moreover have "st_viability (row d i) = 0" if pos: "0 < i" and z: "st_tcd (row d i) = 0"
    proof -
      obtain k where k: "i = Suc k" using pos by (cases i) auto
      show ?thesis
        using exact_viability_zero [of "config_of dur ts" g0 v0 tmp ph ox k] z ri k
        by simp
    qed
    ultimately show ?thesis by (simp add: row_fields)
  qed
  then show ?thesis using s d r v0 by blast
qed

theorem viability_range_witness:
  "(0::real) < 1 \<and> (1::real) \<le> 2 \<and> (0::real) \<le> 0.5 \<and>
   (\<exists>s d. init 2 1 = Some s \<and> simulate_data s 25 0.5 37 7.2 50 = Some d \<and>
      length (time_points s) = 3 \<and> viability d ! 0 = 100 \<and>
      0 \<le> viability d ! 2 \<and> viability d ! 2 \<le> 100)"
proof -
  obtain s d where s: "init 2 1 = Some s"
    and d: "simulate_data s 25 0.5 37 7.2 50 = Some d"
    and v: "viability d ! 0 = 100"
    and e: "\<forall>i<length (time_points s).
              ((0::real) \<le> 0.5 \<longrightarrow> 0 \<le> viability d ! i \<and> viability d ! i \<le> 100) \<and>
              (0 < i \<and> tcd d ! i = 0 \<longrightarrow> viability d ! i = 0)"
    using viability_range [of 1 2 25 "0.5" 37 "7.2" 50] by auto
  have n: "length (time_points s) = 3"
    using time_points_length [OF s] by simp
  have "0 \<le> viability d ! 2 \<and> viability d ! 2 \<le> 100"
    using e [rule_format, of 2] n by simp
  then show ?thesis using s d n v by auto
qed

text \<open>
  Claim C5, as stated, fails for a negative \<open>initial_glucose\<close>: the loop writes
  \<open>max(0, prev_glucose - 0)\<close>, so from row 1 on the glucose column is 0, not
  \<open>initial_glucose\<close>.
\<close>

theorem extinct_glucose_counterexample:
  "\<exists>s d. init 2 1 = Some s \<and> simulate_data s (- 1) 0 37 7.2 50 = Some d \<and>
     glucose d ! 0 = - 1 \<and> glucose d ! 1 = 0"
proof -
  obtain s d where s: "init 2 1 = Some s"
    and d: "simulate_data s (- 1) 0 37 7.2 50 = Some d"
    and n: "2 \<le> length (time_points s)"
    and e: "\<forall>i<length (time_points s). row d i = exact_row (config_of 2 1) (- 1) 0 37 7.2 50 i"
    using valid_run [of 1 2 "- 1" 0 37 "7.2" 50] by auto
  have l: "0 < length (time_points s)" "1 < length (time_points s)"
    using n by linarith+
  have "st_glucose (row d 0) = - 1"
    using e [rule_format, OF l(1)] exact_extinct [of "config_of 2 1" "- 1" 37 "7.2" 50 0]
    by simp
  moreover have "st_glucose (row d 1) = 0"
    using e [rule_format, OF l(2)] exact_extinct [of "config_of 2 1" "- 1" 37 "7.2" 50 1]
    by simp
  ultimately show ?thesis using s d by (simp add: row_fields)
qed

text \<open>
  Claim C5, amended. For every run with \<open>initial_vcd = 0\<close> (any initial glucose,
  temperature, pH, oxygen): \<open>vcd[i] = 0\<close> and \<open>antibody_titer[i] = 0\<close> at every row,
  \<open>glucose[0] = initial_glucose\<close> and \<open>glucose[i] = max(0, initial_glucose)\<close> for
  \<open>i \<ge> 1\<close>; so glucose stays at \<open>initial_glucose\<close> when \<open>initial_glucose \<ge> 0\<close>.
\<close>

theorem extinct_run:
  assumes "0 < ts" and "ts \<le> dur"
  shows "\<exists>s d. init dur ts = Some s \<and> simulate_data s g0 0 tmp ph ox = Some d \<and>
           rows d (length (time_points s)) \<and>
           (\<forall>i<length (time_points s).
              vcd d ! i = 0 \<and> antibody_titer d ! i = 0 \<and>
              glucose d ! i = (if i = 0 then g0 else max 0 g0) \<and>
              (0 \<le> g0 \<longrightarrow> glucose d ! i = g0))"
proof -
  obtain s d where s: "init dur ts = Some s"
    and d: "simulate_data s g0 0 tmp ph ox = Some d"
    and r: "rows d (length (time_points s))"
    and e: "\<forall>i<length (time_points s). row d i = exact_row (config_of dur ts) g0 0 tmp ph ox i"
    using valid_run [OF assms, of g0 0 tmp ph ox] by blast
  have "vcd d ! i = 0 \<and> antibody_titer d ! i = 0 \<and>
        glucose d ! i = (if i = 0 then g0 else max 0 g0) \<and> (0 \<le> g0 \<longrightarrow> glucose d ! i = g0)"
    if "i < length (time_points s)" for i
  proof -
    have ri: "row d i = exact_row (config_of dur ts) g0 0 tmp ph ox i"
      using e that by simp
    have "st_vcd (row d i) = 0 \<and> st_titer (row d i) = 0 \<and>
          st_glucose (row d i) = (if i = 0 then g0 else max 0 g0)"
      using exact_extinct [of "config_of dur ts" g0 tmp ph ox i] ri by simp
    then show ?thesis by (auto simp: row_fields)
  qed
  then show ?thesis using s d r by blast
qed

theorem extinct_run_witness:
  "(0::real) < 1 \<and> (1::real) \<le> 2 \<and> (0::real) \<le> 25 \<and>
   (\<exists>s d. init 2 1 = Some s \<and> simulate_data s 25 0 37 7.2 50 = Some d \<and>
      length (time_points s) = 3 \<and>
      vcd d ! 2 = 0 \<and> antibody_titer d ! 2 = 0 \<and> glucose d ! 2 = 25)"
proof -
  obtain s d where s: "init 2 1 = Some s"
    and d: "simulate_data s 25 0 37 7.2 50 = Some d"
    and e: "\<forall>i<length (time_points s).
              vcd d ! i = 0 \<and> antibody_titer d ! i = 0 \<and>
              glucose d ! i = (if i = 0 then 25 else max 0 25) \<and>
              ((0::real) \<le> 25 \<longrightarrow> glucose d ! i = 25)"
    using extinct_run [of 1 2 25 37 "7.2" 50] by auto
  have n: "length (time_points s) = 3"
    using time_points_length [OF s] by simp
  have "vcd d ! 2 = 0 \<and> antibody_titer d ! 2 = 0 \<and> glucose d ! 2 = 25"
    using e [rule_format, of 2] n by simp
  then show ?thesis using s d n by auto
qed

section \<open>The returned data frame\<close>

lemma time_points_nth:
  assumes "init dur ts = Some s" and "i < length (time_points s)"
  shows "time_points s ! i = real i * ts"
  using assms by (simp add: init_Some(3))

lemma simulate_frame:
  assumes "simulate_data s g0 v0 tmp ph ox = Some d"
  shows "simulate s g0 v0 tmp ph ox =
           Some \<lparr> Zeit = map (\<lambda>x. np_round x 2) (time_points s),
                  Glukose = map (\<lambda>x. np_round x 2) (glucose d),
                  VCD = map (\<lambda>x. np_round x 2) (vcd d),
                  TCD = map (\<lambda>x. np_round x 2) (tcd d),
                  Viabilitaet = map (\<lambda>x. np_round x 2) (viability d),
                  Antikoerper_Titer = map (\<lambda>x. np_round x 2) (antibody_titer d),
                  Temperatur = replicate (length (time_points s)) tmp,
                  pH = replicate (length (time_points s)) ph,
                  Sauerstoff = replicate (length (time_points s)) ox \<rparr>"
  using assms by (simp add: simulate_def Let_def)



lemma rint_of_int [simp]: "rint (of_int z) = z"
  by (simp add: rint_def)

lemma np_round_int: "np_round (of_int z) 2 = of_int z"
proof -
  have "of_int z * (10::real) ^ 2 = of_int (z * 100)" by simp
  then have "rint (of_int z * 10 ^ 2) = z * 100"
    using rint_of_int [of "z * 100"] by (simp only:)
  then show ?thesis by (simp add: np_round_def)
qed

text \<open>
  Claim C8, as stated, fails when \<open>duration\<close> is not a multiple of \<open>time_step\<close>:
  \<open>np.arange(0, duration + time_step, time_step)\<close> has \<open>\<lceil>duration / time_step\<rceil> + 1\<close>
  values and runs past \<open>duration\<close>. With \<open>duration = 3\<close> and \<open>time_step = 2\<close> the frame
  has 3 rows, not \<open>3 / 2 + 1\<close>, and its time column is 0, 2, 4.
\<close>

theorem sample_times_counterexample:
  "\<exists>s df. init 3 2 = Some s \<and> simulate s 25 0.5 37 7.2 50 = Some df \<and>
     time_points s = [0, 2, 4] \<and> Zeit df = [0, 2, 4] \<and>
     real (length (Zeit df)) \<noteq> 3 / 2 + 1 \<and> last (Zeit df) \<noteq> 3"
proof -
  obtain s d where s: "init 3 2 = Some s"
    and d: "simulate_data s 25 0.5 37 7.2 50 = Some d"
    using valid_run [of 2 3 25 "0.5" 37 "7.2" 50] by auto
  have "nat \<lceil>(5::real) / 2\<rceil> = 3" by linarith
  then have "[0..<nat \<lceil>(5::real) / 2\<rceil>] = [0, 1, 2]"
    by (simp add: upt_rec)
  then have tp: "time_points s = [0, 2, 4]"
    using init_Some(3) [OF s] by simp
  have z: "np_round 0 2 = 0" "np_round 2 2 = 2" "np_round 4 2 = 4"
    using np_round_int [of 0] np_round_int [of 2] np_round_int [of 4] by simp_all
  have "simulate s 25 0.5 37 7.2 50 =
          Some \<lparr> Zeit = map (\<lambda>x. np_round x 2) (time_points s),
                  Glukose = map (\<lambda>x. np_round x 2) (glucose d),
                  VCD = map (\<lambda>x. np_round x 2) (vcd d),
                  TCD = map (\<lambda>x. np_round x 2) (tcd d),
                  Viabilitaet = map (\<lambda>x. np_round x 2) (viability d),
                  Antikoerper_Titer = map (\<lambda>x. np_round x 2) (antibody_titer d),
                  Temperatur = replicate (length (time_points s)) 37,
                  pH = replicate (length (time_points s)) 7.2,
                  Sauerstoff = replicate (length (time_points s)) 50 \<rparr>"
    using simulate_frame [OF d] .
  then show ?thesis using s tp z by simp
qed

text \<open>
  The time column is rounded like the others, so a step with more than two decimals does
  not show as it is: with \<open>time_step = 0.125\<close> and \<open>duration = 0.25\<close> (both doubles, as
  are their sum and all the sample times) the sample times 0, 0.125, 0.25 appear as
  0, 0.12, 0.25.
\<close>

lemma time_column_rounds_eighths:
  "\<exists>s df. init (1 / 4) (1 / 8) = Some s \<and> simulate s 25 0.5 37 7.2 50 = Some df \<and>
     time_points s = [0, 1 / 8, 1 / 4] \<and> Zeit df = [0, 3 / 25, 1 / 4]"
proof -
  obtain s d where s: "init (1 / 4) (1 / 8) = Some s"
    and d: "simulate_data s 25 0.5 37 7.2 50 = Some d"
    using valid_run [of "1 / 8" "1 / 4" 25 "0.5" 37 "7.2" 50] by auto
  have "[0..<nat \<lceil>((1::real) / 4 + 1 / 8) / (1 / 8)\<rceil>] = [0, 1, 2]"
    by (simp add: upt_rec)
  then have tp: "time_points s = [0, 1 / 8, 1 / 4]"
    using init_Some(3) [OF s] by simp
  have f: "\<lfloor>(25::real) / 2\<rfloor> = 12" by linarith
  have z: "np_round 0 2 = 0" "np_round (1 / 8) 2 = 3 / 25" "np_round (1 / 4) 2 = 1 / 4"
    using np_round_int [of 0] f by (simp_all add: np_round_def rint_def)
  have "simulate s 25 0.5 37 7.2 50 =
          Some \<lparr> Zeit = map (\<lambda>x. np_round x 2) (time_points s),
                  Glukose = map (\<lambda>x. np_round x 2) (glucose d),
                  VCD = map (\<lambda>x. np_round x 2) (vcd d),
                  TCD = map (\<lambda>x. np_round x 2) (tcd d),
                  Viabilitaet = map (\<lambda>x. np_round x 2) (viability d),
                  Antikoerper_Titer = map (\<lambda>x. np_round x 2) (antibody_titer d),
                  Temperatur = replicate (length (time_points s)) 37,
                  pH = replicate (length (time_points s)) 7.2,
                  Sauerstoff = replicate (length (time_points s)) 50 \<rparr>"
    using simulate_frame [OF d] .
  then show ?thesis using s tp z by simp
qed

text \<open>
  In exact arithmetic, a duration of \<open>k\<close> steps gives \<open>k + 1\<close> rows, and row \<open>i\<close> of the
  time column is \<open>np.round(i * time_step, 2)\<close>. This is a fact of the exact reals only: it
  says nothing of a step such as \<open>0.1\<close>, which is not a double.
\<close>

lemma exact_sample_times:
  assumes "0 < ts" and "0 < k" and "dur = real k * ts"
  shows "\<exists>s df. init dur ts = Some s \<and> simulate s g0 v0 tmp ph ox = Some df \<and>
           real (length (Zeit df)) = dur / ts + 1 \<and>
           length (Zeit df) = k + 1 \<and> length (Glukose df) = k + 1 \<and>
           length (VCD df) = k + 1 \<and> length (TCD df) = k + 1 \<and>
           length (Viabilitaet df) = k + 1 \<and> length (Antikoerper_Titer df) = k + 1 \<and>
           length (Temperatur df) = k + 1 \<and> length (pH df) = k + 1 \<and>
           length (Sauerstoff df) = k + 1 \<and>
           time_points s = map (\<lambda>i. real i * ts) [0..<k + 1] \<and>
           last (time_points s) = dur \<and>
           (\<forall>i<k + 1. Zeit df ! i = np_round (real i * ts) 2)"
proof -
  have le: "ts \<le> dur"
  proof -
    have "1 \<le> real k" using assms(2) by simp
    then have "1 * ts \<le> real k * ts" using assms(1) by (intro mult_right_mono) simp_all
    then show ?thesis using assms(3) by simp
  qed
  obtain s d where s: "init dur ts = Some s"
    and d: "simulate_data s g0 v0 tmp ph ox = Some d"
    and r: "rows d (length (time_points s))"
    using valid_run [OF assms(1) le, of g0 v0 tmp ph ox] by blast
  have "(dur + ts) / ts = real (k + 1)"
    using assms(1,3) by (simp add: field_simps)
  then have "nat \<lceil>(dur + ts) / ts\<rceil> = k + 1"
    by (simp only: ceiling_of_nat nat_int)
  then have tp: "time_points s = map (\<lambda>i. real i * ts) [0..<k + 1]"
    using init_Some(3) [OF s] by simp
  then have n: "length (time_points s) = k + 1" by simp
  have lst: "last (time_points s) = dur"
    using tp assms(3) by (simp add: last_map)
  have cnt: "real (k + 1) = dur / ts + 1"
    using assms(1,3) by simp
  let ?df = "\<lparr> Zeit = map (\<lambda>x. np_round x 2) (time_points s),
                  Glukose = map (\<lambda>x. np_round x 2) (glucose d),
                  VCD = map (\<lambda>x. np_round x 2) (vcd d),
                  TCD = map (\<lambda>x. np_round x 2) (tcd d),
                  Viabilitaet = map (\<lambda>x. np_round x 2) (viability d),
                  Antikoerper_Titer = map (\<lambda>x. np_round x 2) (antibody_titer d),
                  Temperatur = replicate (length (time_points s)) tmp,
                  pH = replicate (length (time_points s)) ph,
                  Sauerstoff = replicate (length (time_points s)) ox \<rparr>"
  have f: "simulate s g0 v0 tmp ph ox = Some ?df"
    using simulate_frame [OF d] .
  have len: "length (glucose d) = k + 1" "length (vcd d) = k + 1" "length (tcd d) = k + 1"
    "length (viability d) = k + 1" "length (antibody_titer d) = k + 1"
    using r n by (simp_all add: rows_def)
  have z: "Zeit ?df ! i = np_round (real i * ts) 2" if i: "i < k + 1" for i
  proof -
    have "i < length (time_points s)" using i n by simp
    then show ?thesis using time_points_nth [OF s] by simp
  qed
  have "real (length (Zeit ?df)) = dur / ts + 1"
    using n cnt by simp
  then show ?thesis
    using s f n len tp lst z by (intro exI [of _ s] exI [of _ ?df]) simp
qed

text \<open>
  Claim C8, amended. For every configuration in which \<open>time_step\<close> is a positive whole
  number \<open>m\<close> and \<open>duration = k * time_step\<close> for an integer \<open>k \<ge> 1\<close>, with
  \<open>100 * (duration + time_step) \<le> 2 ^ 53\<close>, the frame returned by \<open>simulate\<close> has exactly
  \<open>k + 1 = duration / time_step + 1\<close> rows, and its time column is
  \<open>0, time_step, 2 * time_step, \<dots>, duration\<close>, in order, the last sample time being
  \<open>duration\<close>. The bound keeps every number that the program computes on the way
  (\<open>duration + time_step\<close>, its quotient by \<open>time_step\<close>, \<open>i * time_step\<close> and the
  \<open>100 * x\<close> inside \<open>np.round\<close>) a whole number of at most \<open>2 ^ 53\<close>, which doubles
  compute exactly, so that the exact reals of this theory are the program's numbers. The
  default configuration, \<open>duration = 288\<close> and \<open>time_step = 1\<close>, is of this kind.
\<close>

theorem sample_times_of_whole_multiple:
  assumes "0 < m" and "0 < k" and "ts = real m" and "dur = real k * ts"
    and "100 * (dur + ts) \<le> 2 ^ 53"
  shows "\<exists>s df. init dur ts = Some s \<and> simulate s g0 v0 tmp ph ox = Some df \<and>
           real (length (Zeit df)) = dur / ts + 1 \<and>
           length (Zeit df) = k + 1 \<and> length (Glukose df) = k + 1 \<and>
           length (VCD df) = k + 1 \<and> length (TCD df) = k + 1 \<and>
           length (Viabilitaet df) = k + 1 \<and> length (Antikoerper_Titer df) = k + 1 \<and>
           length (Temperatur df) = k + 1 \<and> length (pH df) = k + 1 \<and>
           length (Sauerstoff df) = k + 1 \<and>
           time_points s = map (\<lambda>i. real i * ts) [0..<k + 1] \<and>
           (\<forall>i<k + 1. Zeit df ! i = real i * ts) \<and>
           Zeit df ! 0 = 0 \<and> Zeit df ! k = dur \<and> last (Zeit df) = dur"
proof -
  have ts: "0 < ts" using assms(1,3) by simp
  obtain s df where s: "init dur ts = Some s"
    and f: "simulate s g0 v0 tmp ph ox = Some df"
    and c: "real (length (Zeit df)) = dur / ts + 1"
    and l: "length (Zeit df) = k + 1" "length (Glukose df) = k + 1"
      "length (VCD df) = k + 1" "length (TCD df) = k + 1"
      "length (Viabilitaet df) = k + 1" "length (Antikoerper_Titer df) = k + 1"
      "length (Temperatur df) = k + 1" "length (pH df) = k + 1"
      "length (Sauerstoff df) = k + 1"
    and tp: "time_points s = map (\<lambda>i. real i * ts) [0..<k + 1]"
    and z: "\<forall>i<k + 1. Zeit df ! i = np_round (real i * ts) 2"
    using exact_sample_times [OF ts assms(2,4), of g0 v0 tmp ph ox] by blast
  have whole: "np_round (real i * ts) 2 = real i * ts" for i
  proof -
    have "real i * ts = of_int (int (i * m))" unfolding assms(3) by simp
    then show ?thesis using np_round_int [of "int (i * m)"] by (simp only:)
  qed
  have z': "Zeit df ! i = real i * ts" if "i < k + 1" for i
    using z that whole by simp
  have z0: "Zeit df ! 0 = 0" using z' [of 0] by simp
  have zk: "Zeit df ! k = dur" using z' [of k] assms(4) by simp
  have "Zeit df \<noteq> []" using l(1) by auto
  then have "last (Zeit df) = Zeit df ! k"
    using l(1) by (simp add: last_conv_nth)
  then have lst: "last (Zeit df) = dur" using zk by simp
  show ?thesis using s f c l tp z' z0 zk lst by blast
qed

theorem sample_times_of_whole_multiple_witness:
  "(0::nat) < 1 \<and> (0::nat) < 288 \<and> (1::real) = real (1::nat) \<and>
   (288::real) = real (288::nat) * 1 \<and> (100::real) * (288 + 1) \<le> 2 ^ 53 \<and>
   (\<exists>s df. init 288 1 = Some s \<and> simulate s 25 0.5 37 7.2 50 = Some df \<and>
      length (Zeit df) = 289 \<and> length (Glukose df) = 289 \<and>
      Zeit df ! 0 = 0 \<and> Zeit df ! 1 = 1 \<and> Zeit df ! 288 = 288 \<and> last (Zeit df) = 288)"
proof -
  have b: "(100::real) * (288 + 1) \<le> 2 ^ 53" by simp
  obtain s df where s: "init 288 1 = Some s"
    and f: "simulate s 25 0.5 37 7.2 50 = Some df"
    and l: "length (Zeit df) = 288 + 1" "length (Glukose df) = 288 + 1"
    and z: "\<forall>i<288 + 1. Zeit df ! i = real i * 1"
    and lst: "last (Zeit df) = 288"
    using sample_times_of_whole_multiple [of 1 288 1 288 25 "0.5" 37 "7.2" 50] b by auto
  have "Zeit df ! 0 = 0" "Zeit df ! 1 = 1" "Zeit df ! 288 = 288"
    using z [rule_format, of 0] z [rule_format, of 1] z [rule_format, of 288] by simp_all
  then show ?thesis using s f l lst b by auto
qed

section \<open>Death is not capped by the cells available\<close>

lemma step_overkill:
  fixes p :: state and dur ts tmp ph ox :: real
  defines "act \<equiv> activity_effect (config_of dur ts) tmp ph ox (st_glucose p)"
  defines "dr \<equiv> stress_death_rate (config_of dur ts) tmp ph ox (st_glucose p)"
  defines "sf \<equiv> haldane (st_glucose p) 2 50"
  assumes ts: "0 < ts" and pv: "0 < st_vcd p"
    and h: "1 + 0.035 * sf * act * ts < dr * ts"
  shows "st_vcd (euler_step (config_of dur ts) tmp ph ox p) = 0"
    and "st_vcd p + 0.035 * sf * act * st_vcd p * ts
           < st_dead (euler_step (config_of dur ts) tmp ph ox p) - st_dead p"
    and "st_vcd p + st_dead p
           < st_vcd (euler_step (config_of dur ts) tmp ph ox p)
             + st_dead (euler_step (config_of dur ts) tmp ph ox p)"
proof -
  let ?v = "st_vcd p"
  let ?G = "0.035 * sf * act * ?v * ts"
  let ?D = "dr * ?v * ts"
  have gr: "specific_growth_rate (config_of dur ts) tmp ph ox p = 0.035 * sf * act"
    using pv by (simp add: specific_growth_rate_def sf_def act_def)
  have "?v * (1 + 0.035 * sf * act * ts) < ?v * (dr * ts)"
    using h pv by (rule mult_strict_left_mono)
  then have lt: "?v + ?G < ?D"
    by (simp add: algebra_simps)
  have "0 \<le> 0.035 * sf * act"
    using growth_nonneg [of dur ts tmp ph ox p] gr by simp
  then have "0 \<le> 0.035 * sf * act * ?v" using pv by simp
  then have G0: "0 \<le> ?G" using ts by simp
  have v': "st_vcd (euler_step (config_of dur ts) tmp ph ox p) = max 0 (?v + ?G - ?D)"
    by (simp add: euler_step_fields(1) gr dr_def)
  have d': "st_dead (euler_step (config_of dur ts) tmp ph ox p) = st_dead p + ?D"
    by (simp add: euler_step_fields(2) dr_def)
  show z: "st_vcd (euler_step (config_of dur ts) tmp ph ox p) = 0"
    using v' lt by linarith
  show "?v + ?G < st_dead (euler_step (config_of dur ts) tmp ph ox p) - st_dead p"
    using d' lt by linarith
  show "?v + st_dead p
           < st_vcd (euler_step (config_of dur ts) tmp ph ox p)
             + st_dead (euler_step (config_of dur ts) tmp ph ox p)"
    using z d' lt G0 by linarith
qed

text \<open>
  Claim C10. In every pass \<open>i\<close> of the loop the dead-cell increment is exactly
  \<open>death_rate * prev_vcd * dt\<close>, with the \<open>death_rate\<close> that \<open>evaluate_environment\<close>
  returns for the previous glucose. It is not capped by the cells available: whenever
  \<open>prev_vcd > 0\<close> and \<open>death_rate * dt > 1 + growth_rate * dt\<close>, the pass sets
  \<open>vcd[i] = 0\<close>, \<open>dead_cells\<close> grows by more than \<open>prev_vcd + vcd_growth\<close>, and
  \<open>tcd[i] > tcd[i-1]\<close>.
\<close>

theorem death_increment_uncapped:
  assumes "0 < ts" and "ts \<le> dur"
  shows "\<exists>s d. init dur ts = Some s \<and> simulate_data s g0 v0 tmp ph ox = Some d \<and>
           rows d (length (time_points s)) \<and>
           (\<forall>i. 0 < i \<and> i < length (time_points s) \<longrightarrow>
              (\<exists>act dr sf.
                 evaluate_environment s tmp ph ox (glucose d ! (i - 1)) = Some (act, dr) \<and>
                 monod_kinetics (glucose d ! (i - 1)) (substrate_affinity s)
                   (Some (inhibition_constant s)) = Some sf \<and>
                 dead_cells d ! i - dead_cells d ! (i - 1) = dr * vcd d ! (i - 1) * ts \<and>
                 (0 < vcd d ! (i - 1) \<and> 1 + max_growth_rate s * sf * act * ts < dr * ts \<longrightarrow>
                    vcd d ! i = 0 \<and>
                    vcd d ! (i - 1) + max_growth_rate s * sf * act * vcd d ! (i - 1) * ts
                      < dead_cells d ! i - dead_cells d ! (i - 1) \<and>
                    tcd d ! (i - 1) < tcd d ! i)))"
proof -
  obtain s d where s: "init dur ts = Some s"
    and d: "simulate_data s g0 v0 tmp ph ox = Some d"
    and r: "rows d (length (time_points s))"
    and e: "\<forall>i<length (time_points s). row d i = exact_row (config_of dur ts) g0 v0 tmp ph ox i"
    using valid_run [OF assms, of g0 v0 tmp ph ox] by blast
  have "\<exists>act dr sf.
          evaluate_environment s tmp ph ox (glucose d ! (i - 1)) = Some (act, dr) \<and>
          monod_kinetics (glucose d ! (i - 1)) (substrate_affinity s)
            (Some (inhibition_constant s)) = Some sf \<and>
          dead_cells d ! i - dead_cells d ! (i - 1) = dr * vcd d ! (i - 1) * ts \<and>
          (0 < vcd d ! (i - 1) \<and> 1 + max_growth_rate s * sf * act * ts < dr * ts \<longrightarrow>
             vcd d ! i = 0 \<and>
             vcd d ! (i - 1) + max_growth_rate s * sf * act * vcd d ! (i - 1) * ts
               < dead_cells d ! i - dead_cells d ! (i - 1) \<and>
             tcd d ! (i - 1) < tcd d ! i)"
    if i: "0 < i" "i < length (time_points s)" for i
  proof -
    obtain k where k: "i = Suc k" using i(1) by (cases i) auto
    let ?p = "row d k"
    let ?act = "activity_effect (config_of dur ts) tmp ph ox (st_glucose ?p)"
    let ?dr = "stress_death_rate (config_of dur ts) tmp ph ox (st_glucose ?p)"
    let ?sf = "haldane (st_glucose ?p) 2 50"
    have pk: "?p = exact_row (config_of dur ts) g0 v0 tmp ph ox k"
      using e i(2) k by simp
    have ri: "row d i = euler_step (config_of dur ts) tmp ph ox ?p"
      using e i(2) k pk by simp
    have env: "evaluate_environment s tmp ph ox (glucose d ! (i - 1)) = Some (?act, ?dr)"
      using evaluate_environment_init [OF s] k by (simp add: row_fields)
    have mon: "monod_kinetics (glucose d ! (i - 1)) (substrate_affinity s)
                 (Some (inhibition_constant s)) = Some ?sf"
      using monod_init k by (simp add: init_Some(5,10) [OF s] row_fields)
    have inc: "dead_cells d ! i - dead_cells d ! (i - 1) = ?dr * vcd d ! (i - 1) * ts"
    proof -
      have "st_dead (row d i) = st_dead ?p + ?dr * st_vcd ?p * ts"
        using ri by (simp add: euler_step_fields(2))
      then show ?thesis using k by (simp add: row_fields)
    qed
    have tcp: "st_tcd ?p = st_vcd ?p + st_dead ?p"
      using exact_tcd [of "config_of dur ts" g0 v0 tmp ph ox k] pk by simp
    have tci: "st_tcd (row d i) = st_vcd (row d i) + st_dead (row d i)"
      using ri by (simp add: euler_step_fields(3))
    have over: "vcd d ! i = 0 \<and>
             vcd d ! (i - 1) + max_growth_rate s * ?sf * ?act * vcd d ! (i - 1) * ts
               < dead_cells d ! i - dead_cells d ! (i - 1) \<and>
             tcd d ! (i - 1) < tcd d ! i"
      if pv: "0 < vcd d ! (i - 1)"
        and h: "1 + max_growth_rate s * ?sf * ?act * ts < ?dr * ts"
    proof -
      have pv': "0 < st_vcd ?p" using pv k by (simp add: row_fields)
      have h': "1 + 0.035 * ?sf * ?act * ts < ?dr * ts"
        using h by (simp add: init_Some(4) [OF s])
      note o = step_overkill [OF assms(1) pv' h']
      have "st_vcd (row d i) = 0" using o(1) ri by simp
      moreover have "st_vcd ?p + 0.035 * ?sf * ?act * st_vcd ?p * ts
                       < st_dead (row d i) - st_dead ?p"
        using o(2) ri by simp
      moreover have "st_tcd ?p < st_tcd (row d i)"
        using o(3) ri tcp tci by simp
      ultimately show ?thesis
        using k by (simp add: row_fields init_Some(4) [OF s])
    qed
    show ?thesis using env mon inc over by blast
  qed
  then show ?thesis using s d r by blast
qed

lemma gaussian_le_one: "gaussian_response c f x \<le> 1"
  by (simp add: gaussian_response_def)

lemma inverse_gaussian_ge_one: "1 \<le> 1 / gaussian_response c f x"
  using gaussian_pos [of c f x] gaussian_le_one [of c f x] by simp

lemma one_le_mult:
  fixes a b :: real
  assumes "1 \<le> a" and "1 \<le> b"
  shows "1 \<le> a * b"
  using mult_mono [of 1 a 1 b] assms by simp

lemma death_ge_base:
  "1 / 200 \<le> stress_death_rate (config_of dur ts) tmp ph ox g"
proof -
  let ?c = "config_of dur ts"
  have "1 \<le> 1 / gaussian_response ?c Temperature tmp * (1 / gaussian_response ?c PH ph
            * (1 / gaussian_response ?c Dissolved_Oxygen ox
               * (1 / gaussian_response ?c Glucose_Level g)))"
    by (intro one_le_mult inverse_gaussian_ge_one)
  then have "1 \<le> prod_list (map (\<lambda>g. 1 / g) (responses ?c tmp ph ox g))"
    by (simp add: responses_def)
  then have "1 / 200 * 1 \<le> 1 / 200 * prod_list (map (\<lambda>g. 1 / g) (responses ?c tmp ph ox g))"
    by (intro mult_left_mono) simp_all
  then show ?thesis by (simp add: stress_death_rate_def)
qed

theorem death_increment_uncapped_witness:
  "(0::real) < 1000 \<and> (1000::real) \<le> 1000 \<and>
   (\<exists>s d. init 1000 1000 = Some s \<and> simulate_data s 0 1 37 7.2 50 = Some d \<and>
      length (time_points s) = 2 \<and> vcd d ! 0 = 1 \<and> tcd d ! 0 = 1 \<and>
      vcd d ! 1 = 0 \<and> tcd d ! 0 < tcd d ! 1)"
proof -
  obtain s d where s: "init 1000 1000 = Some s"
    and d: "simulate_data s 0 1 37 7.2 50 = Some d"
    and p: "\<forall>i. 0 < i \<and> i < length (time_points s) \<longrightarrow>
              (\<exists>act dr sf.
                 evaluate_environment s 37 7.2 50 (glucose d ! (i - 1)) = Some (act, dr) \<and>
                 monod_kinetics (glucose d ! (i - 1)) (substrate_affinity s)
                   (Some (inhibition_constant s)) = Some sf \<and>
                 dead_cells d ! i - dead_cells d ! (i - 1) = dr * vcd d ! (i - 1) * 1000 \<and>
                 (0 < vcd d ! (i - 1) \<and> 1 + max_growth_rate s * sf * act * 1000 < dr * 1000 \<longrightarrow>
                    vcd d ! i = 0 \<and>
                    vcd d ! (i - 1) + max_growth_rate s * sf * act * vcd d ! (i - 1) * 1000
                      < dead_cells d ! i - dead_cells d ! (i - 1) \<and>
                    tcd d ! (i - 1) < tcd d ! i))"
    using death_increment_uncapped [of 1000 1000 0 1 37 "7.2" 50] by auto
  have n: "length (time_points s) = 2"
    using time_points_length [OF s] by simp
  obtain s' d' where s': "init 1000 1000 = Some s'"
    and d': "simulate_data s' 0 1 37 7.2 50 = Some d'"
    and e': "\<forall>i<length (time_points s'). row d' i = exact_row (config_of 1000 1000) 0 1 37 7.2 50 i"
    using valid_run [of 1000 1000 0 1 37 "7.2" 50] by auto
  have ss: "s' = s" using s s' by simp
  have dd: "d' = d" using d d' ss by simp
  have r0: "row d 0 = initial_state 0 1"
    using e' [rule_format, of 0] n ss dd by simp
  have v0: "vcd d ! 0 = 1" and t0: "tcd d ! 0 = 1" and g0: "glucose d ! 0 = 0"
    using r0 by (simp_all flip: row_fields add: initial_state_def)
  obtain act dr sf
    where env: "evaluate_environment s 37 7.2 50 (glucose d ! 0) = Some (act, dr)"
      and mon: "monod_kinetics (glucose d ! 0) (substrate_affinity s)
                  (Some (inhibition_constant s)) = Some sf"
      and imp: "0 < vcd d ! 0 \<and> 1 + max_growth_rate s * sf * act * 1000 < dr * 1000 \<longrightarrow>
                  vcd d ! 1 = 0 \<and> tcd d ! 0 < tcd d ! 1"
    using p [rule_format, of 1] n by auto
  have sf: "sf = 0"
    using mon g0 by (simp add: monod_nonpos)
  have "dr = stress_death_rate (config_of 1000 1000) 37 7.2 50 (glucose d ! 0)"
    using env evaluate_environment_init [OF s, of 37 "7.2" 50 "glucose d ! 0"] by simp
  then have "1 / 200 \<le> dr"
    using death_ge_base [of 1000 1000 37 "7.2" 50 "glucose d ! 0"] by simp
  then have "1 + max_growth_rate s * sf * act * 1000 < dr * 1000"
    using sf by simp
  then have "vcd d ! 1 = 0 \<and> tcd d ! 0 < tcd d ! 1"
    using imp v0 by simp
  then show ?thesis using s d n v0 t0 by auto
qed

section \<open>A negative initial density\<close>

lemma env_glucose_14:
  fixes dur ts :: real
  defines "q \<equiv> 1 / gaussian_response (config_of dur ts) Glucose_Level 14"
  shows "stress_death_rate (config_of dur ts) 37 (36 / 5) 50 14 = q / 200"
    and "1 \<le> q" and "q < 2"
proof -
  show "stress_death_rate (config_of dur ts) 37 (36 / 5) 50 14 = q / 200"
    by (simp add: q_def stress_death_rate_def responses_def gaussian_response_def config_of_def)
  show "1 \<le> q"
    unfolding q_def by (rule inverse_gaussian_ge_one)
  have g: "gaussian_response (config_of dur ts) Glucose_Level 14 = exp (- (9 / 800))"
    by (simp add: gaussian_response_def config_of_def power2_eq_square)
  have "1 + - (9 / 800) \<le> exp (- (9 / 800 :: real))"
    by (rule exp_ge_add_one_self)
  then have "1 / 2 < gaussian_response (config_of dur ts) Glucose_Level 14"
    using g by simp
  then show "q < 2"
    unfolding q_def by (simp add: field_simps)
qed

lemma ratio_above_100:
  fixes v t :: real
  assumes "0 < t" and "t < v"
  shows "100 < (if t > 0 then v / t * 100 else 0)"
  using assms by (simp add: field_simps)

text \<open>
  Without \<open>initial_vcd \<ge> 0\<close> the viability can leave \<open>[0, 100]\<close>: a negative
  \<open>initial_vcd\<close> makes \<open>dead_cells\<close> negative, and then \<open>tcd < vcd\<close>.
\<close>

lemma viability_above_100:
  "\<exists>s d. init 600 300 = Some s \<and> simulate_data s 14 (- 1) 37 7.2 50 = Some d \<and>
     length (time_points s) = 3 \<and> 100 < viability d ! 2"
proof -
  let ?c = "config_of 600 300"
  obtain s d where s: "init 600 300 = Some s"
    and d: "simulate_data s 14 (- 1) 37 7.2 50 = Some d"
    and e: "\<forall>i<length (time_points s). row d i = exact_row ?c 14 (- 1) 37 7.2 50 i"
    using valid_run [of 300 600 14 "- 1" 37 "7.2" 50] by auto
  have n: "length (time_points s) = 3"
    using time_points_length [OF s] by simp
  define q where "q = 1 / gaussian_response ?c Glucose_Level 14"
  have dq: "stress_death_rate ?c 37 (36 / 5) 50 14 = q / 200" and q1: "1 \<le> q" and q2: "q < 2"
    using env_glucose_14 [of 600 300] by (simp_all add: q_def)
  let ?r0 = "initial_state 14 (- 1)"
  let ?r1 = "euler_step ?c 37 (36 / 5) 50 ?r0"
  let ?r2 = "euler_step ?c 37 (36 / 5) 50 ?r1"
  have g0: "specific_growth_rate ?c 37 (36 / 5) 50 ?r0 = 0"
    by (simp add: specific_growth_rate_def initial_state_def)
  have r0: "st_glucose ?r0 = 14" "st_vcd ?r0 = - 1" "st_dead ?r0 = 0"
    by (simp_all add: initial_state_def)
  have v1: "st_vcd ?r1 = 3 * q / 2 - 1"
    using q1 by (simp add: euler_step_fields(1) g0 r0 dq)
  have d1: "st_dead ?r1 = - (3 * q / 2)"
    by (simp add: euler_step_fields(2) r0 dq)
  have gl1: "st_glucose ?r1 = 20"
    by (simp add: euler_step_fields(5) g0 r0)
  have v1pos: "0 < st_vcd ?r1" using v1 q1 by simp
  have h: "haldane 20 2 50 = 2 / 3" by (simp add: haldane_def)
  have g1: "specific_growth_rate ?c 37 (36 / 5) 50 ?r1 = 7 / 300"
    using v1pos by (simp add: specific_growth_rate_def gl1 h env_optimal)
  have v2: "st_vcd ?r2 = 13 / 2 * st_vcd ?r1"
    using v1pos by (simp add: euler_step_fields(1) [of ?c _ _ _ ?r1] g1 gl1 env_optimal)
  have d2: "st_dead ?r2 = st_dead ?r1 + 3 / 2 * st_vcd ?r1"
    by (simp add: euler_step_fields(2) [of ?c _ _ _ ?r1] gl1 env_optimal)
  have t2: "st_tcd ?r2 = st_vcd ?r2 + st_dead ?r2"
    by (rule euler_step_fields(3))
  have vi2: "st_viability ?r2 = (if st_tcd ?r2 > 0 then st_vcd ?r2 / st_tcd ?r2 * 100 else 0)"
    by (rule euler_step_fields(4))
  have dneg: "st_dead ?r2 < 0" using d2 d1 v1 q2 by linarith
  have tpos: "0 < st_tcd ?r2" using t2 v2 d2 d1 v1 q1 by linarith
  have "st_tcd ?r2 < st_vcd ?r2" using t2 dneg by linarith
  then have "100 < st_viability ?r2"
    using ratio_above_100 [OF tpos] vi2 by simp
  moreover have "row d 2 = ?r2"
    using e [rule_format, of 2] n by (simp add: numeral_2_eq_2)
  ultimately have "100 < viability d ! 2"
    by (simp flip: row_fields)
  then show ?thesis using s d n by simp
qed

end
